theory Spec2Isabelle
  imports Complex_Main
begin

section \<open>Presence rows and the active roster (src/lib/utils/collaboration.ts)\<close>

text \<open>
  Timestamps (\<open>last_seen\<close>, \<open>Date.now()\<close>, the \<open>timestamp\<close> of a broadcast) are the instants
  they denote, in milliseconds since the epoch: an ISO-8601 string written by
  \<open>toISOString()\<close> and read back by \<open>new Date(s).getTime()\<close> is that integer. A caret offset
  (\<open>cursor_position\<close>, a textarea's \<open>selectionStart\<close>) is a natural number. The field \<open>id\<close>
  of a row is \<open>row_id\<close>, the \<open>id\<close> of a user \<open>user_key\<close>.
\<close>

record user_row =
  user_key :: string
  full_name :: "string option"
  initials :: "string option"
  email :: "string option"

record CollaborationEditor =
  row_id :: int
  problem_id :: int
  user_id :: string
  field_name :: string
  cursor_position :: nat
  selection_start :: "nat option"
  selection_end :: "nat option"
  last_seen :: int
  users :: "user_row option"

text \<open>The \<open>{data, error}\<close> pair every supabase query resolves to.\<close>

record 'a response =
  data :: "'a option"
  error :: "string option"

text \<open>
  The storage backend: the two tables the queries read, and for each query whether it fails
  (and with which error) when it is issued.
\<close>

record database =
  problem_collaboration :: "CollaborationEditor list"
  users_table :: "user_row list"
  collab_failure :: "string option"
  users_failure :: "string option"

text \<open>
  \<open>.from("problem_collaboration").select("*").eq("problem_id", problemId)
     .gt("last_seen", cutoff).order("last_seen", {ascending: false})\<close>:
  the rows of the problem seen after the cutoff, latest first; rows seen at the same instant
  stay in the order of the table.
\<close>

definition order_desc :: "CollaborationEditor list \<Rightarrow> CollaborationEditor list" where
  "order_desc rows = sort_key (\<lambda>r. - last_seen r) rows"

definition select_collaboration ::
  "database \<Rightarrow> int \<Rightarrow> int \<Rightarrow> CollaborationEditor list response" where
  "select_collaboration db problemId cutoff =
     (case collab_failure db of
        Some e \<Rightarrow> \<lparr>data = None, error = Some e\<rparr>
      | None \<Rightarrow>
          \<lparr>data = Some (order_desc
                     (filter (\<lambda>r. problem_id r = problemId \<and> cutoff < last_seen r)
                        (problem_collaboration db))),
           error = None\<rparr>)"

text \<open>\<open>.from("users").select("id, full_name, initials, email").in("id", userIds)\<close>\<close>

definition select_users :: "database \<Rightarrow> string list \<Rightarrow> user_row list response" where
  "select_users db userIds =
     (case users_failure db of
        Some e \<Rightarrow> \<lparr>data = None, error = Some e\<rparr>
      | None \<Rightarrow>
          \<lparr>data = Some (filter (\<lambda>u. user_key u \<in> set userIds) (users_table db)),
           error = None\<rparr>)"

subsection \<open>The JavaScript \<open>Set\<close> and \<open>Map\<close>, in insertion order\<close>

definition Set_add :: "'a list \<Rightarrow> 'a \<Rightarrow> 'a list" where
  "Set_add s x = (if x \<in> set s then s else s @ [x])"

definition new_Set :: "'a list \<Rightarrow> 'a list" where
  "new_Set xs = foldl Set_add [] xs"

fun Map_get :: "('k \<times> 'v) list \<Rightarrow> 'k \<Rightarrow> 'v option" where
  "Map_get [] k = None"
| "Map_get ((k', v) # m) k = (if k' = k then Some v else Map_get m k)"

text \<open>\<open>set\<close> on a key already present keeps the key's position and replaces its value.\<close>

fun Map_set :: "('k \<times> 'v) list \<Rightarrow> 'k \<Rightarrow> 'v \<Rightarrow> ('k \<times> 'v) list" where
  "Map_set [] k v = [(k, v)]"
| "Map_set ((k', v') # m) k v =
     (if k' = k then (k, v) # m else (k', v') # Map_set m k v)"

definition Map_values :: "('k \<times> 'v) list \<Rightarrow> 'v list" where
  "Map_values m = map snd m"

definition new_Map :: "('k \<times> 'v) list \<Rightarrow> ('k \<times> 'v) list" where
  "new_Map entries = foldl (\<lambda>m (k, v). Map_set m k v) [] entries"

subsection \<open>\<open>fetchActiveEditors\<close>\<close>

text \<open>The callback of \<open>reduce\<close>: one entry per user, replaced only by a strictly later one.\<close>

definition keep_latest ::
  "(string \<times> CollaborationEditor) list \<Rightarrow> CollaborationEditor
     \<Rightarrow> (string \<times> CollaborationEditor) list" where
  "keep_latest acc editor =
     (case Map_get acc (user_id editor) of
        None \<Rightarrow> Map_set acc (user_id editor) editor
      | Some existing \<Rightarrow>
          if last_seen editor > last_seen existing
          then Map_set acc (user_id editor) editor
          else acc)"

definition with_users ::
  "(string \<times> user_row) list \<Rightarrow> CollaborationEditor \<Rightarrow> CollaborationEditor" where
  "with_users usersMap editor = editor\<lparr>users := Map_get usersMap (user_id editor)\<rparr>"

definition merge_editors ::
  "(string \<times> user_row) list \<Rightarrow> CollaborationEditor list \<Rightarrow> CollaborationEditor list" where
  "merge_editors usersMap collaborationData =
     Map_values (foldl keep_latest [] (map (with_users usersMap) collaborationData))"

definition fetchActiveEditors :: "database \<Rightarrow> int \<Rightarrow> int \<Rightarrow> CollaborationEditor list" where
  "fetchActiveEditors db now problemId =
     (let collab = select_collaboration db problemId (now - 30000) in
      if error collab \<noteq> None then []
      else
        case data collab of
          None \<Rightarrow> []
        | Some collaborationData \<Rightarrow>
            if collaborationData = [] then []
            else
              let userIds = new_Set (map user_id collaborationData);
                  usersRes = select_users db userIds
              in if error usersRes \<noteq> None
                 then map (\<lambda>editor. editor\<lparr>users := None\<rparr>) collaborationData
                 else
                   let usersMap =
                         new_Map (map (\<lambda>user. (user_key user, user))
                                    (case data usersRes of None \<Rightarrow> [] | Some us \<Rightarrow> us))
                   in merge_editors usersMap collaborationData)"

section \<open>Realtime channels (src/lib/utils/collaboration.ts)\<close>

text \<open>
  A channel object of the realtime client is a reference: \<open>ident\<close> is the identity of the
  object and \<open>topic\<close> the name it was created with. Its \<open>state\<close> property changes under the
  holders of the reference, so it lives in the store \<open>channel_state\<close>, read as the string the
  code compares it with. The client \<open>supabase_channel\<close> below answers
  \<open>supabase.channel(name)\<close> with a new object, initially \<open>closed\<close>; a client may instead
  hand out the object it already keeps for the name, which is why the stretches of
  \<open>broadcastFieldUpdate\<close> take the client as a parameter. \<open>subscribe()\<close> starts the join.
\<close>

record RealtimeChannel =
  ident :: nat
  topic :: string

record FieldUpdate =
  fu_field_name :: string
  fu_content :: string
  fu_user_id :: string
  fu_timestamp :: int

record message =
  msg_type :: string
  msg_event :: string
  payload :: FieldUpdate

text \<open>What the module asks of the client, the timers and the console, in the order it asks.\<close>

datatype effect =
    Create RealtimeChannel
  | Subscribe RealtimeChannel
  | RemoveChannel RealtimeChannel
  | On RealtimeChannel string string
  | SetTimeout nat
  | Send RealtimeChannel message
  | ConsoleWarn string
  | ConsoleError

text \<open>
  The module state: \<open>broadcastChannels\<close> is the module-level \<open>Map\<close>, \<open>channel_state\<close> the
  \<open>state\<close> of every channel object, \<open>next_ident\<close> the identity of the next object the
  client creates, \<open>effects\<close> the calls made so far.
\<close>

record world =
  broadcastChannels :: "int \<rightharpoonup> RealtimeChannel"
  channel_state :: "nat \<Rightarrow> string"
  next_ident :: nat
  effects :: "effect list"

definition emit :: "effect \<Rightarrow> world \<Rightarrow> world" where
  "emit e w = w\<lparr>effects := effects w @ [e]\<rparr>"

definition state_of :: "world \<Rightarrow> RealtimeChannel \<Rightarrow> string" where
  "state_of w ch = channel_state w (ident ch)"

subsection \<open>Channel names: the template literals\<close>

definition digit_char :: "nat \<Rightarrow> char" where
  "digit_char d = ''0123456789'' ! (d mod 10)"

fun show_nat :: "nat \<Rightarrow> string" where
  "show_nat n = (if n < 10 then [digit_char n] else show_nat (n div 10) @ [digit_char (n mod 10)])"

declare show_nat.simps [simp del]

definition show_number :: "int \<Rightarrow> string" where
  "show_number i = (if i < 0 then CHR ''-'' # show_nat (nat (- i)) else show_nat (nat i))"

text \<open>\<open>`problem:${problemId}`\<close> and \<open>`problem:${problemId}:updates`\<close>\<close>

definition collaboration_topic :: "int \<Rightarrow> string" where
  "collaboration_topic problemId = ''problem:'' @ show_number problemId"

definition updates_topic :: "int \<Rightarrow> string" where
  "updates_topic problemId = ''problem:'' @ show_number problemId @ '':updates''"

subsection \<open>The client\<close>

definition set_state :: "RealtimeChannel \<Rightarrow> string \<Rightarrow> world \<Rightarrow> world" where
  "set_state ch s w = w\<lparr>channel_state := (channel_state w)(ident ch := s)\<rparr>"

definition new_channel :: "string \<Rightarrow> world \<Rightarrow> RealtimeChannel" where
  "new_channel name w = \<lparr>ident = next_ident w, topic = name\<rparr>"

definition supabase_channel :: "string \<Rightarrow> world \<Rightarrow> RealtimeChannel \<times> world" where
  "supabase_channel name w =
     (let ch = new_channel name w
      in (ch, emit (Create ch) (set_state ch ''closed'' (w\<lparr>next_ident := Suc (next_ident w)\<rparr>))))"

definition subscribe :: "RealtimeChannel \<Rightarrow> world \<Rightarrow> world" where
  "subscribe ch w = emit (Subscribe ch) (set_state ch ''joining'' w)"

definition supabase_removeChannel :: "RealtimeChannel \<Rightarrow> world \<Rightarrow> world" where
  "supabase_removeChannel ch w = emit (RemoveChannel ch) (set_state ch ''closed'' w)"

subsection \<open>\<open>subscribeToCollaboration\<close> and \<open>removeBroadcastChannel\<close>\<close>

definition subscribeToCollaboration :: "int \<Rightarrow> world \<Rightarrow> RealtimeChannel \<times> world" where
  "subscribeToCollaboration problemId w =
     (let (ch, w1) = supabase_channel (collaboration_topic problemId) w;
          w2 = emit (On ch ''postgres_changes'' ''*'') w1
      in (ch, subscribe ch w2))"

definition cache_delete :: "int \<Rightarrow> world \<Rightarrow> world" where
  "cache_delete problemId w = w\<lparr>broadcastChannels := (broadcastChannels w)(problemId := None)\<rparr>"

definition cache_set :: "int \<Rightarrow> RealtimeChannel \<Rightarrow> world \<Rightarrow> world" where
  "cache_set problemId ch w = w\<lparr>broadcastChannels := (broadcastChannels w)(problemId \<mapsto> ch)\<rparr>"

definition removeBroadcastChannel :: "int \<Rightarrow> world \<Rightarrow> world" where
  "removeBroadcastChannel problemId w =
     (case broadcastChannels w problemId of
        None \<Rightarrow> w
      | Some ch \<Rightarrow> cache_delete problemId (supabase_removeChannel ch w))"

subsection \<open>\<open>broadcastFieldUpdate\<close>, one stretch between two \<open>await\<close>s at a time\<close>

record broadcast_args =
  problemId :: int
  fieldName :: string
  content :: string
  userId :: string

datatype outcome = Rejected | Resolved string

text \<open>
  What the surroundings answer: the clock read by \<open>new Date()\<close> when the message is built,
  and how the promise of \<open>send\<close> settles. Creating, subscribing and removing a channel and
  starting a timer do not throw; a rejected \<open>send\<close> is what the \<open>catch\<close> is there for.
\<close>

record env =
  clock :: int
  send_outcome :: outcome

datatype await_point = AwaitSubscribe | AwaitSettle | AwaitSend | Returned

text \<open>A call in progress: its arguments, its local variable \<open>channel\<close>, and where it waits.\<close>

record call =
  args :: broadcast_args
  channel :: RealtimeChannel
  pc :: await_point

definition field_update_message :: "env \<Rightarrow> broadcast_args \<Rightarrow> message" where
  "field_update_message e a =
     \<lparr>msg_type = ''broadcast'', msg_event = ''field_update'',
      payload = \<lparr>fu_field_name = fieldName a, fu_content = content a,
                 fu_user_id = userId a, fu_timestamp = clock e\<rparr>\<rparr>"

definition send_update :: "env \<Rightarrow> broadcast_args \<Rightarrow> RealtimeChannel \<Rightarrow> world \<Rightarrow> call \<times> world" where
  "send_update e a ch w =
     (\<lparr>args = a, channel = ch, pc = AwaitSend\<rparr>, emit (Send ch (field_update_message e a)) w)"

text \<open>
  The code asks the client for a channel by \<open>supabase.channel(name)\<close>. Which object the
  client hands out is the client's affair, so the stretches that ask take its \<open>channel\<close>
  method as a parameter; \<open>supabase_channel\<close> above is the client that hands out a new object
  on every request.
\<close>

type_synonym client = "string \<Rightarrow> world \<Rightarrow> RealtimeChannel \<times> world"

definition create_and_subscribe_with :: "client \<Rightarrow> broadcast_args \<Rightarrow> world \<Rightarrow> call \<times> world" where
  "create_and_subscribe_with chan a w =
     (let (ch, w1) = chan (updates_topic (problemId a)) w
      in (\<lparr>args = a, channel = ch, pc = AwaitSubscribe\<rparr>, subscribe ch w1))"

text \<open>From the entry of \<open>broadcastFieldUpdate\<close> to its first \<open>await\<close>.\<close>

definition begin_broadcast_with ::
  "client \<Rightarrow> env \<Rightarrow> broadcast_args \<Rightarrow> world \<Rightarrow> call \<times> world" where
  "begin_broadcast_with chan e a w =
     (case broadcastChannels w (problemId a) of
        None \<Rightarrow> create_and_subscribe_with chan a w
      | Some ch \<Rightarrow>
          if state_of w ch = ''closed'' \<or> state_of w ch = ''errored''
          then create_and_subscribe_with chan a
                 (cache_delete (problemId a) (supabase_removeChannel ch w))
          else if state_of w ch \<noteq> ''joined'' \<and> state_of w ch \<noteq> ''subscribed''
          then (\<lparr>args = a, channel = ch, pc = AwaitSettle\<rparr>, emit (SetTimeout 100) w)
          else send_update e a ch w)"

definition create_and_subscribe :: "broadcast_args \<Rightarrow> world \<Rightarrow> call \<times> world" where
  "create_and_subscribe a w = create_and_subscribe_with supabase_channel a w"

definition begin_broadcast :: "env \<Rightarrow> broadcast_args \<Rightarrow> world \<Rightarrow> call \<times> world" where
  "begin_broadcast e a w = begin_broadcast_with supabase_channel e a w"

text \<open>The \<open>catch\<close> and the check of the status, once \<open>send\<close> has settled.\<close>

definition console_log :: "outcome \<Rightarrow> effect list" where
  "console_log r =
     (case r of
        Rejected \<Rightarrow> [ConsoleError]
      | Resolved status \<Rightarrow> if status \<noteq> ''ok'' then [ConsoleWarn status] else [])"

text \<open>From one \<open>await\<close> to the next, or to the end of the call.\<close>

definition resume :: "env \<Rightarrow> call \<Rightarrow> world \<Rightarrow> call \<times> world" where
  "resume e c w =
     (case pc c of
        AwaitSubscribe \<Rightarrow>
          (c\<lparr>pc := AwaitSettle\<rparr>,
           emit (SetTimeout 100) (cache_set (problemId (args c)) (channel c) w))
      | AwaitSettle \<Rightarrow> send_update e (args c) (channel c) w
      | AwaitSend \<Rightarrow>
          (c\<lparr>pc := Returned\<rparr>, w\<lparr>effects := effects w @ console_log (send_outcome e)\<rparr>)
      | Returned \<Rightarrow> (c, w))"

text \<open>A call that nothing else interleaves with: the stretches one after the other.\<close>

definition run_broadcast :: "env \<Rightarrow> broadcast_args \<Rightarrow> world \<Rightarrow> call \<times> world" where
  "run_broadcast e a w =
     (let (c1, w1) = begin_broadcast e a w;
          (c2, w2) = resume e c1 w1;
          (c3, w3) = resume e c2 w2
      in resume e c3 w3)"

definition broadcastFieldUpdate :: "env \<Rightarrow> broadcast_args \<Rightarrow> world \<Rightarrow> world" where
  "broadcastFieldUpdate e a w = snd (run_broadcast e a w)"

text \<open>
  Several calls in flight on the one thread: \<open>schedule\<close> names, stretch after stretch, the
  call that runs next; a call not yet begun begins, a call begun resumes. A stretch runs to
  its \<open>await\<close> without interruption, and the surroundings give every stretch the same
  answers.
\<close>

definition run_stretch ::
  "client \<Rightarrow> env \<Rightarrow> broadcast_args list \<Rightarrow> (call option list \<times> world) \<Rightarrow> nat
     \<Rightarrow> (call option list \<times> world)" where
  "run_stretch chan e as s i =
     (let (cs, w) = s in
      if i < length as \<and> i < length cs
      then case cs ! i of
             None \<Rightarrow>
               (let (c, w') = begin_broadcast_with chan e (as ! i) w in (cs[i := Some c], w'))
           | Some c \<Rightarrow> (let (c', w') = resume e c w in (cs[i := Some c'], w'))
      else (cs, w))"

definition interleave ::
  "client \<Rightarrow> env \<Rightarrow> broadcast_args list \<Rightarrow> nat list \<Rightarrow> world
     \<Rightarrow> call option list \<times> world" where
  "interleave chan e as schedule w =
     foldl (run_stretch chan e as) (replicate (length as) None, w) schedule"

subsection \<open>\<open>subscribeToFieldUpdates\<close>\<close>

definition subscribeToFieldUpdates :: "int \<Rightarrow> world \<Rightarrow> RealtimeChannel \<times> world" where
  "subscribeToFieldUpdates pid w =
     (case broadcastChannels w pid of
        Some ch \<Rightarrow>
          if state_of w ch = ''joined'' \<or> state_of w ch = ''subscribed''
             \<or> state_of w ch = ''joining''
          then (ch, emit (On ch ''broadcast'' ''field_update'') w)
          else
            let (ch1, w1) =
                  (if state_of w ch = ''closed'' \<or> state_of w ch = ''errored''
                   then
                     let (n, v) = supabase_channel (updates_topic pid)
                                    (cache_delete pid (supabase_removeChannel ch w))
                     in (n, cache_set pid n v)
                   else (ch, w))
            in (ch1, subscribe ch1 (emit (On ch1 ''broadcast'' ''field_update'') w1))
      | None \<Rightarrow>
          let (n, v) = supabase_channel (updates_topic pid) w
          in (n, subscribe n (emit (On n ''broadcast'' ''field_update'') (cache_set pid n v))))"

subsection \<open>What a trace of effects shows\<close>

fun created :: "effect list \<Rightarrow> RealtimeChannel list" where
  "created [] = []"
| "created (Create ch # es) = ch # created es"
| "created (_ # es) = created es"

fun sent :: "effect list \<Rightarrow> (RealtimeChannel \<times> message) list" where
  "sent [] = []"
| "sent (Send ch m # es) = (ch, m) # sent es"
| "sent (_ # es) = sent es"

text \<open>
  Every cached channel is an object the client has handed out, under the name of the
  update channel of its key.
\<close>

definition cache_ok :: "world \<Rightarrow> bool" where
  "cache_ok w \<longleftrightarrow>
     (\<forall>pid ch. broadcastChannels w pid = Some ch \<longrightarrow>
        ident ch < next_ident w \<and> topic ch = updates_topic pid)"

text \<open>The same of a call in progress and the channel it holds.\<close>

definition call_ok :: "world \<Rightarrow> call \<Rightarrow> bool" where
  "call_ok w c \<longleftrightarrow>
     topic (channel c) = updates_topic (problemId (args c)) \<and> ident (channel c) < next_ident w"

text \<open>The \<open>await\<close> a call reaches from the one it resumes at.\<close>

definition next_pc :: "await_point \<Rightarrow> await_point" where
  "next_pc p =
     (case p of AwaitSubscribe \<Rightarrow> AwaitSettle | AwaitSettle \<Rightarrow> AwaitSend | _ \<Rightarrow> Returned)"

text \<open>
  What the stretches need of a client: the object handed out bears the name asked for, the
  request is one effect, and the cache is the module's own.
\<close>

definition hands_out :: "client \<Rightarrow> bool" where
  "hands_out chan \<longleftrightarrow>
     (\<forall>name w. topic (fst (chan name w)) = name
        \<and> effects (snd (chan name w)) = effects w @ [Create (fst (chan name w))]
        \<and> broadcastChannels (snd (chan name w)) = broadcastChannels w)"

text \<open>A client that keeps one object for a name and hands that one out on every request.\<close>

definition channel_by_topic :: client where
  "channel_by_topic name w =
     (\<lparr>ident = 0, topic = name\<rparr>, emit (Create \<lparr>ident = 0, topic = name\<rparr>) w)"

text \<open>
  The objects handed out to two requests for one name, each followed by its \<open>subscribe\<close>,
  with nothing in between.
\<close>

definition first_handed :: "client \<Rightarrow> string \<Rightarrow> world \<Rightarrow> RealtimeChannel" where
  "first_handed chan name w = fst (chan name w)"

definition second_handed :: "client \<Rightarrow> string \<Rightarrow> world \<Rightarrow> RealtimeChannel" where
  "second_handed chan name w =
     fst (chan name (subscribe (fst (chan name w)) (snd (chan name w))))"

text \<open>Of a call that began by creating its channel: has it cached the channel, has it sent.\<close>

definition has_cached :: "call \<Rightarrow> bool" where
  "has_cached c \<longleftrightarrow> pc c \<noteq> AwaitSubscribe"

definition has_sent :: "call \<Rightarrow> bool" where
  "has_sent c \<longleftrightarrow> pc c = AwaitSend \<or> pc c = Returned"

text \<open>
  Two calls for one problem that each created a channel, at any later moment: each holds its
  channel, nothing more was created, each has sent once on its own channel if it has sent,
  and the cache holds the channel of a call that has cached.
\<close>

definition two_calls ::
  "env \<Rightarrow> broadcast_args \<Rightarrow> broadcast_args \<Rightarrow> RealtimeChannel \<Rightarrow> RealtimeChannel
     \<Rightarrow> RealtimeChannel list \<Rightarrow> (RealtimeChannel \<times> message) list
     \<Rightarrow> call option list \<times> world \<Rightarrow> bool" where
  "two_calls e a b chA chB created0 sent0 s \<longleftrightarrow>
     (\<exists>cA cB S.
        fst s = [Some cA, Some cB]
        \<and> args cA = a \<and> channel cA = chA \<and> args cB = b \<and> channel cB = chB
        \<and> created (effects (snd s)) = created0 @ [chA, chB]
        \<and> sent (effects (snd s)) = sent0 @ S
        \<and> set S = (if has_sent cA then {(chA, field_update_message e a)} else {})
                  \<union> (if has_sent cB then {(chB, field_update_message e b)} else {})
        \<and> length S = (if has_sent cA then 1 else 0) + (if has_sent cB then 1 else 0)
        \<and> (\<not> has_cached cA \<and> \<not> has_cached cB \<longrightarrow>
              broadcastChannels (snd s) (problemId a) = None)
        \<and> (has_cached cA \<or> has_cached cB \<longrightarrow>
              broadcastChannels (snd s) (problemId a) = Some chA \<and> has_cached cA
              \<or> broadcastChannels (snd s) (problemId a) = Some chB \<and> has_cached cB))"

definition initial_world :: world where
  "initial_world =
     \<lparr>broadcastChannels = Map.empty, channel_state = (\<lambda>_. ''closed''), next_ident = 0,
      effects = []\<rparr>"

section \<open>The cursor projection (src/lib/components/CursorIndicator.svelte)\<close>

text \<open>
  Pixel quantities are real numbers. A style length that \<open>parseFloat\<close> cannot read (NaN) is
  \<open>None\<close>; the computed \<open>font-size\<close> is always a length in pixels. \<open>offsetWidth\<close> of the
  single-line measuring element is a whole number of pixels that the layout engine
  determines from the text: it is a parameter.
\<close>

record DOMRect =
  rect_top :: real
  rect_left :: real
  rect_width :: real
  rect_height :: real

record CSSStyle =
  paddingTop :: "real option"
  paddingLeft :: "real option"
  lineHeight :: "real option"
  fontSize :: real

record textarea =
  text_value :: string
  scrollTop :: real
  scrollLeft :: real
  boundingClientRect :: DOMRect
  computedStyle :: CSSStyle

record position =
  pos_top :: real
  pos_left :: real

text \<open>\<open>parseFloat(s) || 0\<close>\<close>

definition or_zero :: "real option \<Rightarrow> real" where
  "or_zero x = (case x of None \<Rightarrow> 0 | Some v \<Rightarrow> v)"

text \<open>\<open>parseFloat(style.lineHeight) || parseFloat(style.fontSize) * 1.2\<close>\<close>

definition line_height :: "CSSStyle \<Rightarrow> real" where
  "line_height st =
     (case lineHeight st of
        None \<Rightarrow> fontSize st * 1.2
      | Some h \<Rightarrow> if h = 0 then fontSize st * 1.2 else h)"

text \<open>\<open>s.split("\n")\<close>: at least one segment, one more for every newline.\<close>

fun split_nl :: "string \<Rightarrow> string list" where
  "split_nl [] = [[]]"
| "split_nl (c # cs) =
     (if c = CHR 0x0A then [] # split_nl cs
      else case split_nl cs of
             [] \<Rightarrow> [[c]]
           | l # ls \<Rightarrow> (c # l) # ls)"

text \<open>\<open>Math.min(editor.cursor_position || 0, text.length)\<close>\<close>

definition cursorPos :: "string \<Rightarrow> nat \<Rightarrow> nat" where
  "cursorPos text cursor = min cursor (length text)"

text \<open>\<open>text.substring(0, cursorPos)\<close>\<close>

definition textBeforeCursor :: "string \<Rightarrow> nat \<Rightarrow> string" where
  "textBeforeCursor text cursor = take (cursorPos text cursor) text"

definition lineNumber :: "string \<Rightarrow> nat \<Rightarrow> nat" where
  "lineNumber text cursor = length (split_nl (textBeforeCursor text cursor)) - 1"

definition currentLineText :: "string \<Rightarrow> nat \<Rightarrow> string" where
  "currentLineText text cursor = last (split_nl (textBeforeCursor text cursor))"

text \<open>\<open>Math.min(Math.max(x, lo), hi)\<close>\<close>

definition clamp :: "real \<Rightarrow> real \<Rightarrow> real \<Rightarrow> real" where
  "clamp x lo hi = min (max x lo) hi"

definition project :: "(string \<Rightarrow> nat) \<Rightarrow> textarea \<Rightarrow> nat \<Rightarrow> position" where
  "project offsetWidth textarea cursor =
     (let text = text_value textarea;
          scrollTop = scrollTop textarea;
          scrollLeft = scrollLeft textarea;
          rect = boundingClientRect textarea;
          style = computedStyle textarea;
          paddingTop = or_zero (paddingTop style);
          paddingLeft = or_zero (paddingLeft style)
      in if cursorPos text cursor = 0 \<and> length text = 0
         then \<lparr>pos_top = rect_top rect + paddingTop + 2 - scrollTop,
               pos_left = rect_left rect + paddingLeft - scrollLeft\<rparr>
         else
           let lineHeight = line_height style;
               lineWidth = real (offsetWidth (currentLineText text cursor));
               topPosition = rect_top rect + paddingTop
                             + real (lineNumber text cursor) * lineHeight + 2 - scrollTop;
               leftPosition = rect_left rect + paddingLeft + lineWidth - scrollLeft;
               maxTop = rect_top rect + rect_height rect - scrollTop - lineHeight;
               minTop = rect_top rect - scrollTop;
               maxLeft = rect_left rect + rect_width rect - scrollLeft;
               minLeft = rect_left rect - scrollLeft
           in \<lparr>pos_top = clamp topPosition minTop maxTop,
                pos_left = clamp leftPosition minLeft maxLeft\<rparr>)"

text \<open>The component's function: nothing to place without a field element or an editor.\<close>

definition updateCursorPosition ::
  "(string \<Rightarrow> nat) \<Rightarrow> textarea option \<Rightarrow> CollaborationEditor option \<Rightarrow> position" where
  "updateCursorPosition offsetWidth fieldElement editor =
     (case (fieldElement, editor) of
        (Some textarea, Some ed) \<Rightarrow> project offsetWidth textarea (cursor_position ed)
      | _ \<Rightarrow> \<lparr>pos_top = 0, pos_left = 0\<rparr>)"

section \<open>Example inputs\<close>

text \<open>A font in which every character is eight pixels wide.\<close>

definition monospace8 :: "string \<Rightarrow> nat" where
  "monospace8 s = 8 * length s"

text \<open>A field holding the two lines \<open>ab\<close> and \<open>cd\<close>, six lines high, not scrolled.\<close>

definition example_field :: textarea where
  "example_field =
     \<lparr>text_value = ''ab'' @ [CHR 0x0A] @ ''cd'', scrollTop = 0, scrollLeft = 0,
      boundingClientRect =
        \<lparr>rect_top = 100, rect_left = 50, rect_width = 300, rect_height = 120\<rparr>,
      computedStyle =
        \<lparr>paddingTop = Some 4, paddingLeft = Some 6, lineHeight = Some 20, fontSize = 16\<rparr>\<rparr>"

text \<open>The same field squeezed to half a line of height, and then emptied.\<close>

definition low_field :: textarea where
  "low_field =
     example_field\<lparr>boundingClientRect :=
       \<lparr>rect_top = 100, rect_left = 50, rect_width = 300, rect_height = 10\<rparr>\<rparr>"

definition low_empty_field :: textarea where
  "low_empty_field = low_field\<lparr>text_value := ''''\<rparr>"

text \<open>Nine lines of text in a field three lines high: the last line lies below the box.\<close>

definition long_field :: textarea where
  "long_field =
     example_field\<lparr>text_value := ''a'' @ replicate 8 (CHR 0x0A) @ ''b'',
       boundingClientRect :=
         \<lparr>rect_top = 100, rect_left = 50, rect_width = 300, rect_height = 60\<rparr>\<rparr>"

text \<open>
  Five presence rows: alice in two fields of problem 7, bob in one, carol seen 40 seconds
  before the fetch at 100500, dave in another problem.
\<close>

definition row_alice_statement :: CollaborationEditor where
  "row_alice_statement =
     \<lparr>row_id = 1, problem_id = 7, user_id = ''alice'', field_name = ''statement'',
      cursor_position = 3, selection_start = None, selection_end = None,
      last_seen = 100000, users = None\<rparr>"

definition row_alice_answer :: CollaborationEditor where
  "row_alice_answer =
     \<lparr>row_id = 2, problem_id = 7, user_id = ''alice'', field_name = ''answer'',
      cursor_position = 0, selection_start = None, selection_end = None,
      last_seen = 99000, users = None\<rparr>"

definition row_bob :: CollaborationEditor where
  "row_bob =
     \<lparr>row_id = 3, problem_id = 7, user_id = ''bob'', field_name = ''statement'',
      cursor_position = 12, selection_start = Some 12, selection_end = Some 15,
      last_seen = 98000, users = None\<rparr>"

definition row_carol :: CollaborationEditor where
  "row_carol =
     \<lparr>row_id = 4, problem_id = 7, user_id = ''carol'', field_name = ''answer'',
      cursor_position = 1, selection_start = None, selection_end = None,
      last_seen = 60500, users = None\<rparr>"

definition row_dave :: CollaborationEditor where
  "row_dave =
     \<lparr>row_id = 5, problem_id = 8, user_id = ''dave'', field_name = ''statement'',
      cursor_position = 0, selection_start = None, selection_end = None,
      last_seen = 100100, users = None\<rparr>"

definition user_alice :: user_row where
  "user_alice =
     \<lparr>user_key = ''alice'', full_name = Some ''Alice A'', initials = Some ''AA'',
      email = Some ''alice@example.org''\<rparr>"

definition user_bob :: user_row where
  "user_bob = \<lparr>user_key = ''bob'', full_name = None, initials = Some ''BB'', email = None\<rparr>"

definition example_db :: database where
  "example_db =
     \<lparr>problem_collaboration =
        [row_carol, row_bob, row_alice_answer, row_dave, row_alice_statement],
      users_table = [user_alice, user_bob],
      collab_failure = None, users_failure = None\<rparr>"

text \<open>The same backend when the lookup of the profiles fails, and when the presence query fails.\<close>

definition db_without_profiles :: database where
  "db_without_profiles = example_db\<lparr>users_failure := Some ''timeout''\<rparr>"

definition db_unreachable :: database where
  "db_unreachable = example_db\<lparr>collab_failure := Some ''unreachable''\<rparr>"

text \<open>Two edits of problem 7 by alice, and surroundings in which \<open>send\<close> resolves to \<open>ok\<close>.\<close>

definition statement_edit :: broadcast_args where
  "statement_edit =
     \<lparr>problemId = 7, fieldName = ''statement'', content = ''x = 1'', userId = ''alice''\<rparr>"

definition answer_edit :: broadcast_args where
  "answer_edit = \<lparr>problemId = 7, fieldName = ''answer'', content = ''42'', userId = ''alice''\<rparr>"

definition calm :: env where
  "calm = \<lparr>clock = 100600, send_outcome = Resolved ''ok''\<rparr>"

text \<open>
  The module after a consumer subscribed to the updates of problem 7 and the client then
  reported the channel as errored.
\<close>

definition errored_world :: world where
  "errored_world =
     set_state \<lparr>ident = 0, topic = updates_topic 7\<rparr> ''errored''
       (snd (subscribeToFieldUpdates 7 initial_world))"

text \<open>
  The statement edit in the initial world, run up to its settle delay: channel 0 is created,
  subscribed and cached, and the call waits. While it waits the channel is removed by
  \<open>removeBroadcastChannel\<close>, or the client reports it errored.
\<close>

definition waiting_call :: "call \<times> world" where
  "waiting_call =
     resume calm (fst (begin_broadcast calm statement_edit initial_world))
       (snd (begin_broadcast calm statement_edit initial_world))"

definition removed_meanwhile :: world where
  "removed_meanwhile = removeBroadcastChannel 7 (snd waiting_call)"

definition errored_meanwhile :: world where
  "errored_meanwhile = set_state (channel (fst waiting_call)) ''errored'' (snd waiting_call)"

section \<open>Properties of the cursor projection\<close>

lemmas project_unfold =
  project_def cursorPos_def lineNumber_def currentLineText_def textBeforeCursor_def Let_def

text \<open>\<open>split\<close> returns at least one segment, so its last segment exists.\<close>

lemma split_nl_not_Nil: "split_nl s \<noteq> []"
  by (induction s) (auto split: list.splits)

text \<open>
  C7. For every target box and every cursor offset, the projection of a cursor in the empty
  text is the padded top-left corner of the box moved by the scroll offsets:
  top = boxTop + paddingTop + 2 - scrollTop, left = boxLeft + paddingLeft - scrollLeft,
  where a padding is the number \<open>parseFloat\<close> reads from the style, and 0 when it reads none.
  In the low empty field, with paddings 4 and 6 at (100, 50), that is (106, 56).
\<close>

theorem project_empty_text:
  "updateCursorPosition offsetWidth (Some (textarea\<lparr>text_value := ''''\<rparr>))
       (Some (editor\<lparr>cursor_position := cursor\<rparr>)) =
     \<lparr>pos_top = rect_top (boundingClientRect textarea)
                 + or_zero (paddingTop (computedStyle textarea)) + 2 - scrollTop textarea,
      pos_left = rect_left (boundingClientRect textarea)
                 + or_zero (paddingLeft (computedStyle textarea)) - scrollLeft textarea\<rparr>
   \<and> or_zero (Some padding) = padding
   \<and> or_zero None = 0
   \<and> updateCursorPosition offsetWidth
         (Some \<lparr>text_value = '''', scrollTop = sTop, scrollLeft = sLeft,
                 boundingClientRect =
                   \<lparr>rect_top = boxTop, rect_left = boxLeft, rect_width = boxWidth,
                    rect_height = boxHeight\<rparr>,
                 computedStyle =
                   \<lparr>paddingTop = Some padTop, paddingLeft = Some padLeft, lineHeight = lh,
                    fontSize = fs\<rparr>\<rparr>)
         (Some (editor\<lparr>cursor_position := cursor\<rparr>))
       = \<lparr>pos_top = boxTop + padTop + 2 - sTop, pos_left = boxLeft + padLeft - sLeft\<rparr>
   \<and> updateCursorPosition offsetWidth
         (Some \<lparr>text_value = '''', scrollTop = sTop, scrollLeft = sLeft,
                 boundingClientRect =
                   \<lparr>rect_top = boxTop, rect_left = boxLeft, rect_width = boxWidth,
                    rect_height = boxHeight\<rparr>,
                 computedStyle =
                   \<lparr>paddingTop = None, paddingLeft = None, lineHeight = lh, fontSize = fs\<rparr>\<rparr>)
         (Some (editor\<lparr>cursor_position := cursor\<rparr>))
       = \<lparr>pos_top = boxTop + 2 - sTop, pos_left = boxLeft - sLeft\<rparr>
   \<and> updateCursorPosition offsetWidth (Some low_empty_field)
         (Some (editor\<lparr>cursor_position := cursor\<rparr>))
       = \<lparr>pos_top = 106, pos_left = 56\<rparr>"
  by (simp add: updateCursorPosition_def project_unfold or_zero_def low_empty_field_def
        low_field_def example_field_def)

text \<open>
  C10. The offset used for measuring is min(cursorOffset, length of text), so it never exceeds
  the length of the local text, the measured prefix of an offset at or past the end is the
  whole text, and an offset past the end is projected exactly as the offset at the end.
\<close>

theorem stale_offset_projected_at_end:
  "cursorPos text cursor = min cursor (length text)
   \<and> cursorPos text cursor \<le> length text
   \<and> textBeforeCursor text (length text + k) = text
   \<and> project offsetWidth textarea cursor
       = project offsetWidth textarea (min cursor (length (text_value textarea)))
   \<and> updateCursorPosition offsetWidth (Some textarea)
         (Some (editor\<lparr>cursor_position := length (text_value textarea) + k\<rparr>))
       = updateCursorPosition offsetWidth (Some textarea)
           (Some (editor\<lparr>cursor_position := length (text_value textarea)\<rparr>))"
  by (simp add: updateCursorPosition_def project_unfold)

text \<open>
  C5, as stated, fails: at offset 4 of the text \<open>ab\<close>, newline, \<open>cd\<close> the cursor stands
  before the \<open>d\<close>, and in the eight-pixel font the caret is 8 pixels from the padded left
  edge, not the 16 pixels of \<open>cd\<close>.
\<close>

theorem newline_example_counterexample:
  "pos_left (project monospace8 example_field 4)
     \<noteq> rect_left (boundingClientRect example_field)
        + or_zero (paddingLeft (computedStyle example_field))
        + real (monospace8 ''cd'') - scrollLeft example_field"
  by (simp add: example_field_def monospace8_def project_unfold or_zero_def clamp_def
        line_height_def)

text \<open>
  C5, amended. For the text \<open>ab\<close>, newline, \<open>cd\<close> and cursor offset 4 the line index is 1
  and the text measured is \<open>c\<close>, the part of the cursor's line before the cursor (\<open>cd\<close> is
  measured at offset 5); the caret is placed one line height below the padded top and the
  measured width of \<open>c\<close> right of the padded left edge, each then clamped to the box.
\<close>

theorem newline_example:
  "lineNumber (''ab'' @ [CHR 0x0A] @ ''cd'') 4 = 1
   \<and> currentLineText (''ab'' @ [CHR 0x0A] @ ''cd'') 4 = ''c''
   \<and> currentLineText (''ab'' @ [CHR 0x0A] @ ''cd'') 5 = ''cd''
   \<and> project offsetWidth (textarea\<lparr>text_value := ''ab'' @ [CHR 0x0A] @ ''cd''\<rparr>) 4 =
       \<lparr>pos_top = clamp (rect_top (boundingClientRect textarea)
                          + or_zero (paddingTop (computedStyle textarea))
                          + 1 * line_height (computedStyle textarea) + 2 - scrollTop textarea)
                     (rect_top (boundingClientRect textarea) - scrollTop textarea)
                     (rect_top (boundingClientRect textarea)
                        + rect_height (boundingClientRect textarea) - scrollTop textarea
                        - line_height (computedStyle textarea)),
        pos_left = clamp (rect_left (boundingClientRect textarea)
                           + or_zero (paddingLeft (computedStyle textarea))
                           + real (offsetWidth ''c'') - scrollLeft textarea)
                     (rect_left (boundingClientRect textarea) - scrollLeft textarea)
                     (rect_left (boundingClientRect textarea)
                        + rect_width (boundingClientRect textarea) - scrollLeft textarea)\<rparr>"
  by (simp add: project_unfold)

text \<open>
  C6, as stated, fails for a box lower than one line, where the interval is empty and the
  result is its upper end, below the lower end; and for the empty text, whose padded corner
  is returned unclamped and lies above the upper end in such a box.
\<close>

theorem clamp_counterexample:
  "pos_top (project monospace8 low_field 4)
     < rect_top (boundingClientRect low_field) - scrollTop low_field
   \<and> pos_top (project monospace8 low_empty_field 0)
     > rect_top (boundingClientRect low_empty_field)
       + rect_height (boundingClientRect low_empty_field)
       - scrollTop low_empty_field - line_height (computedStyle low_empty_field)"
  by (simp add: low_empty_field_def low_field_def example_field_def monospace8_def
        project_unfold or_zero_def clamp_def line_height_def)

text \<open>
  C6, amended. For every non-empty text, in a box at least one line high and of
  non-negative width, top lies within
  [boxTop - scrollTop, boxTop + boxHeight - scrollTop - lineHeight] and left within
  [boxLeft - scrollLeft, boxLeft + boxWidth - scrollLeft], wherever the raw position falls.
\<close>

theorem project_clamped:
  assumes "text_value textarea \<noteq> []"
    and "line_height (computedStyle textarea) \<le> rect_height (boundingClientRect textarea)"
    and "0 \<le> rect_width (boundingClientRect textarea)"
  shows "rect_top (boundingClientRect textarea) - scrollTop textarea
           \<le> pos_top (project offsetWidth textarea cursor)
       \<and> pos_top (project offsetWidth textarea cursor)
           \<le> rect_top (boundingClientRect textarea) + rect_height (boundingClientRect textarea)
              - scrollTop textarea - line_height (computedStyle textarea)
       \<and> rect_left (boundingClientRect textarea) - scrollLeft textarea
           \<le> pos_left (project offsetWidth textarea cursor)
       \<and> pos_left (project offsetWidth textarea cursor)
           \<le> rect_left (boundingClientRect textarea) + rect_width (boundingClientRect textarea)
              - scrollLeft textarea"
  using assms by (simp add: project_def Let_def clamp_def)

text \<open>
  In the long field the raw top of a cursor at the end, 266, lies below the box; the
  projection returns 140, the last line position inside it.
\<close>

theorem project_clamped_witness:
  "text_value long_field \<noteq> []
   \<and> line_height (computedStyle long_field) \<le> rect_height (boundingClientRect long_field)
   \<and> 0 \<le> rect_width (boundingClientRect long_field)
   \<and> lineNumber (text_value long_field) 10 = 8
   \<and> pos_top (project monospace8 long_field 10) = 140
   \<and> 100 \<le> pos_top (project monospace8 long_field 10)
   \<and> pos_top (project monospace8 long_field 10) \<le> 140
   \<and> 50 \<le> pos_left (project monospace8 long_field 10)
   \<and> pos_left (project monospace8 long_field 10) \<le> 350"
proof -
  have nonempty: "text_value long_field \<noteq> []"
    by (simp add: long_field_def example_field_def)
  have high: "line_height (computedStyle long_field) \<le> rect_height (boundingClientRect long_field)"
    by (simp add: long_field_def example_field_def line_height_def)
  have wide: "0 \<le> rect_width (boundingClientRect long_field)"
    by (simp add: long_field_def example_field_def)
  have line: "lineNumber (text_value long_field) 10 = 8"
    by (simp add: long_field_def example_field_def project_unfold eval_nat_numeral)
  have top: "pos_top (project monospace8 long_field 10) = 140"
    by (simp add: long_field_def example_field_def project_unfold eval_nat_numeral
          monospace8_def or_zero_def clamp_def line_height_def)
  from project_clamped [OF nonempty high wide, of monospace8 10] nonempty high wide line top
  show ?thesis
    by (simp add: long_field_def example_field_def line_height_def)
qed

section \<open>Properties of the active roster\<close>

subsection \<open>The presence query\<close>

lemma set_order_desc: "set (order_desc rows) = set rows"
  by (simp add: order_desc_def)

lemma order_desc_descending:
  "sorted_wrt (\<lambda>a b. last_seen b \<le> last_seen a) (order_desc rows)"
proof -
  have "sorted (map (\<lambda>r. - last_seen r) (order_desc rows))"
    unfolding order_desc_def by (rule sorted_sort_key)
  then show ?thesis
    by (simp add: sorted_map sorted_wrt_iff_nth_less)
qed

lemma select_collaboration_data:
  assumes "data (select_collaboration db pid cutoff) = Some rows"
  shows "set rows = {r \<in> set (problem_collaboration db). problem_id r = pid \<and> cutoff < last_seen r}"
    and "sorted_wrt (\<lambda>a b. last_seen b \<le> last_seen a) rows"
  using assms
  by (auto simp: select_collaboration_def set_order_desc order_desc_descending
        split: option.splits)

subsection \<open>The \<open>Map\<close> of the reduction\<close>

lemma Map_get_None: "Map_get m k = None \<longleftrightarrow> k \<notin> set (map fst m)"
  by (induction m) (auto split: if_splits)

lemma Map_get_Map_set: "Map_get (Map_set m k v) k' = (if k' = k then Some v else Map_get m k')"
  by (induction m) auto

lemma keys_Map_set:
  "map fst (Map_set m k v) = (if k \<in> set (map fst m) then map fst m else map fst m @ [k])"
  by (induction m) (fastforce split: if_splits)+

lemma set_Map_set: "set (Map_set m k v) \<subseteq> insert (k, v) (set m)"
  by (induction m) (auto split: if_splits)

lemma Map_get_mem: "Map_get m k = Some v \<Longrightarrow> (k, v) \<in> set m"
  by (induction m) (auto split: if_splits)

lemma mem_Map_get: "distinct (map fst m) \<Longrightarrow> (k, v) \<in> set m \<Longrightarrow> Map_get m k = Some v"
  by (induction m) (auto simp: rev_image_eqI)

text \<open>One step of the reduction, read through \<open>get\<close>.\<close>

lemma Map_get_keep_latest:
  "Map_get (keep_latest acc e) k =
     (if k = user_id e
      then (case Map_get acc k of
              None \<Rightarrow> Some e
            | Some existing \<Rightarrow> if last_seen existing < last_seen e then Some e else Some existing)
      else Map_get acc k)"
  by (simp add: keep_latest_def Map_get_Map_set split: option.splits)

lemma keys_keep_latest:
  "map fst (keep_latest acc e) =
     (if user_id e \<in> set (map fst acc) then map fst acc else map fst acc @ [user_id e])"
  by (auto simp: keep_latest_def keys_Map_set Map_get_None split: option.splits
        dest: Map_get_mem intro: rev_image_eqI)

lemma distinct_keep_latest: "distinct (map fst acc) \<Longrightarrow> distinct (map fst (keep_latest acc e))"
  by (simp add: keys_keep_latest)

lemma set_keep_latest: "set (keep_latest acc e) \<subseteq> insert (user_id e, e) (set acc)"
  using set_Map_set [of acc "user_id e" e]
  by (auto simp: keep_latest_def split: option.splits)

text \<open>An entry at most as recent as the one held is discarded; a strictly later one replaces it.\<close>

lemma keep_latest_discards:
  "Map_get acc (user_id e) = Some existing \<Longrightarrow> last_seen e \<le> last_seen existing
     \<Longrightarrow> keep_latest acc e = acc"
  by (simp add: keep_latest_def)

lemma keep_latest_replaces:
  "Map_get acc (user_id e) = Some existing \<Longrightarrow> last_seen existing < last_seen e
     \<Longrightarrow> Map_get (keep_latest acc e) (user_id e) = Some e"
  by (simp add: Map_get_keep_latest)

subsection \<open>The whole reduction\<close>

lemma distinct_reduce:
  "distinct (map fst acc) \<Longrightarrow> distinct (map fst (foldl keep_latest acc es))"
  by (induction es arbitrary: acc) (simp_all add: distinct_keep_latest)

lemma set_reduce:
  "set (foldl keep_latest acc es) \<subseteq> set acc \<union> (\<lambda>e. (user_id e, e)) ` set es"
proof (induction es arbitrary: acc)
  case Nil
  show ?case by simp
next
  case (Cons e es)
  have "set (foldl keep_latest (keep_latest acc e) es)
          \<subseteq> set (keep_latest acc e) \<union> (\<lambda>e. (user_id e, e)) ` set es"
    by (rule Cons.IH)
  with set_keep_latest [of acc e] show ?case by auto
qed

text \<open>What is held for a user never gets older while the reduction runs.\<close>

lemma reduce_grows:
  "Map_get acc k = Some v
     \<Longrightarrow> \<exists>v'. Map_get (foldl keep_latest acc es) k = Some v' \<and> last_seen v \<le> last_seen v'"
proof (induction es arbitrary: acc v)
  case Nil
  then show ?case by simp
next
  case (Cons e es)
  have "\<exists>u. Map_get (keep_latest acc e) k = Some u \<and> last_seen v \<le> last_seen u"
    using Cons.prems by (auto simp: Map_get_keep_latest)
  then obtain u where u: "Map_get (keep_latest acc e) k = Some u" "last_seen v \<le> last_seen u"
    by blast
  from Cons.IH [OF u(1)] u(2) show ?case by force
qed

lemma reduce_covers:
  "e \<in> set es
     \<Longrightarrow> \<exists>v. Map_get (foldl keep_latest acc es) (user_id e) = Some v \<and> last_seen e \<le> last_seen v"
proof (induction es arbitrary: acc)
  case Nil
  then show ?case by simp
next
  case (Cons x es)
  show ?case
  proof (cases "e = x")
    case True
    have "\<exists>u. Map_get (keep_latest acc x) (user_id x) = Some u \<and> last_seen x \<le> last_seen u"
      by (simp add: Map_get_keep_latest split: option.splits)
    then obtain u where u: "Map_get (keep_latest acc x) (user_id x) = Some u"
        "last_seen x \<le> last_seen u"
      by blast
    from reduce_grows [OF u(1), of es] u(2) True show ?thesis by force
  next
    case False
    with Cons.prems have "e \<in> set es" by simp
    from Cons.IH [OF this, of "keep_latest acc x"] show ?thesis by simp
  qed
qed

text \<open>
  The merge on the path where the profile lookup succeeded: one entry per user, each entry
  one of the rows (with its profile), and no row of that user is more recent than it.
\<close>

lemma merge_editors_one_per_user:
  "distinct (map user_id (merge_editors usersMap rows))"
  "e \<in> set (merge_editors usersMap rows) \<Longrightarrow> \<exists>r \<in> set rows. e = with_users usersMap r"
  "r \<in> set rows \<Longrightarrow>
     \<exists>e \<in> set (merge_editors usersMap rows). user_id e = user_id r \<and> last_seen r \<le> last_seen e"
proof -
  let ?es = "map (with_users usersMap) rows"
  let ?m = "foldl keep_latest [] ?es"
  have sub: "set ?m \<subseteq> (\<lambda>e. (user_id e, e)) ` set ?es"
    using set_reduce [of "[]" ?es] by simp
  have keys: "map user_id (Map_values ?m) = map fst ?m"
    unfolding Map_values_def using sub by (auto simp: map_eq_conv)
  have "distinct (map fst ?m)"
    by (rule distinct_reduce) simp
  with keys show "distinct (map user_id (merge_editors usersMap rows))"
    by (simp add: merge_editors_def)
  show "\<exists>r \<in> set rows. e = with_users usersMap r" if "e \<in> set (merge_editors usersMap rows)"
    using that sub by (auto simp: merge_editors_def Map_values_def)
  show "\<exists>e \<in> set (merge_editors usersMap rows). user_id e = user_id r \<and> last_seen r \<le> last_seen e"
    if "r \<in> set rows"
  proof -
    from that have "with_users usersMap r \<in> set ?es" by simp
    from reduce_covers [OF this, of "[]"]
    obtain v where v: "Map_get ?m (user_id r) = Some v" "last_seen r \<le> last_seen v"
      by (auto simp: with_users_def)
    from Map_get_mem [OF v(1)] have mem: "(user_id r, v) \<in> set ?m" .
    with sub have "user_id v = user_id r" by auto
    moreover from mem have "v \<in> set (merge_editors usersMap rows)"
      by (force simp: merge_editors_def Map_values_def)
    ultimately show ?thesis using v(2) by blast
  qed
qed

subsection \<open>\<open>fetchActiveEditors\<close>\<close>

text \<open>Every path of the fetch returns rows of the query, with a profile or without.\<close>

lemma fetch_from_query:
  assumes "e \<in> set (fetchActiveEditors db now pid)"
  shows "\<exists>rows r u. data (select_collaboration db pid (now - 30000)) = Some rows
           \<and> r \<in> set rows \<and> e = r\<lparr>users := u\<rparr>"
proof (cases "data (select_collaboration db pid (now - 30000))")
  case None
  with assms show ?thesis by (simp add: fetchActiveEditors_def Let_def split: if_splits)
next
  case (Some rows)
  show ?thesis
  proof (cases "error (select_users db (new_Set (map user_id rows))) \<noteq> None")
    case True
    with assms Some have "e \<in> set (map (\<lambda>editor. editor\<lparr>users := None\<rparr>) rows)"
      by (simp add: fetchActiveEditors_def Let_def split: if_splits)
    with Some show ?thesis by auto
  next
    case False
    with assms Some obtain usersMap where "e \<in> set (merge_editors usersMap rows)"
      by (auto simp: fetchActiveEditors_def Let_def split: if_splits)
    from merge_editors_one_per_user(2) [OF this] Some show ?thesis
      by (auto simp: with_users_def)
  qed
qed
text \<open>The order of the roster.\<close>

lemma Map_set_absent: "k \<notin> set (map fst m) \<Longrightarrow> Map_set m k v = m @ [(k, v)]"
  by (induction m) auto

text \<open>On rows in descending order the reduction only appends, so the roster is in descending order too.\<close>

lemma reduce_descending:
  assumes "sorted_wrt (\<lambda>a b. last_seen b \<le> last_seen a) (map snd acc @ es)"
  shows "sorted_wrt (\<lambda>a b. last_seen b \<le> last_seen a) (map snd (foldl keep_latest acc es))"
  using assms
proof (induction es arbitrary: acc)
  case Nil
  then show ?case by simp
next
  case (Cons e es)
  show ?case
  proof (cases "Map_get acc (user_id e)")
    case None
    then have "user_id e \<notin> set (map fst acc)"
      by (simp add: Map_get_None)
    with None have "keep_latest acc e = acc @ [(user_id e, e)]"
      by (simp add: keep_latest_def Map_set_absent)
    with Cons.prems Cons.IH [of "acc @ [(user_id e, e)]"] show ?thesis
      by simp
  next
    case (Some existing)
    then have "existing \<in> set (map snd acc)"
      by (force dest: Map_get_mem)
    with Cons.prems have "last_seen e \<le> last_seen existing"
      by (auto simp: sorted_wrt_append)
    with Some have same: "keep_latest acc e = acc"
      by (rule keep_latest_discards)
    from Cons.prems have "sorted_wrt (\<lambda>a b. last_seen b \<le> last_seen a) (map snd acc @ es)"
      by (auto simp: sorted_wrt_append)
    from Cons.IH [OF this] same show ?thesis
      by simp
  qed
qed

lemma merge_editors_descending:
  assumes "sorted_wrt (\<lambda>a b. last_seen b \<le> last_seen a) rows"
  shows "sorted_wrt (\<lambda>a b. last_seen b \<le> last_seen a) (merge_editors usersMap rows)"
proof -
  have "sorted_wrt (\<lambda>a b. last_seen b \<le> last_seen a) (map (with_users usersMap) rows)"
    using assms by (simp add: sorted_wrt_map with_users_def)
  then show ?thesis
    using reduce_descending [of "[]" "map (with_users usersMap) rows"]
    by (simp add: merge_editors_def Map_values_def)
qed

lemma fetch_descending:
  "sorted_wrt (\<lambda>a b. last_seen b \<le> last_seen a) (fetchActiveEditors db now pid)"
proof (cases "data (select_collaboration db pid (now - 30000))")
  case None
  then show ?thesis by (simp add: fetchActiveEditors_def Let_def)
next
  case (Some rows)
  from select_collaboration_data(2) [OF Some]
  have rows: "sorted_wrt (\<lambda>a b. last_seen b \<le> last_seen a) rows" .
  then have "sorted_wrt (\<lambda>a b. last_seen b \<le> last_seen a) (map (\<lambda>editor. editor\<lparr>users := None\<rparr>) rows)"
    by (simp add: sorted_wrt_map)
  with Some merge_editors_descending [OF rows] show ?thesis
    by (simp add: fetchActiveEditors_def Let_def)
qed

text \<open>With the profiles at hand the roster holds one entry per user.\<close>

lemma fetch_one_per_user_with_profiles:
  assumes "users_failure db = None"
  shows "distinct (map user_id (fetchActiveEditors db now pid))"
proof -
  have "error (select_users db ids) = None" for ids
    using assms by (simp add: select_users_def)
  then show ?thesis
    by (simp add: fetchActiveEditors_def Let_def merge_editors_one_per_user(1)
          split: option.splits)
qed

text \<open>
  C1. Every fetch of the active roster returns at most one record per user, the one with the
  greatest \<open>last_seen\<close>. The code does so only when the profile lookup succeeds: at the
  example backend the roster is alice, bob; when the lookup of the profiles fails, the early
  return hands back every fresh row, and alice appears once for each of her two fields.
\<close>

theorem fetch_duplicates_without_profiles:
  "map user_id (fetchActiveEditors example_db 100500 7) = [''alice'', ''bob'']
   \<and> map user_id (fetchActiveEditors db_without_profiles 100500 7) = [''alice'', ''alice'', ''bob'']
   \<and> map field_name (fetchActiveEditors db_without_profiles 100500 7)
       = [''statement'', ''answer'', ''statement'']
   \<and> \<not> distinct (map user_id (fetchActiveEditors db_without_profiles 100500 7))"
proof -
  have ok: "map user_id (fetchActiveEditors example_db 100500 7) = [''alice'', ''bob'']"
    by code_simp
  have dup: "fetchActiveEditors db_without_profiles 100500 7
               = [row_alice_statement, row_alice_answer, row_bob]"
    by code_simp
  show ?thesis
    unfolding dup ok
    by (simp add: row_alice_statement_def row_alice_answer_def row_bob_def)
qed

text \<open>
  C2. A presence row whose \<open>last_seen\<close> lies 30 seconds or more before the time of the
  fetch is not in the returned roster, with whatever profile: every returned entry is a row
  of the problem seen less than 30 seconds ago. The rows the query hands to the fetch are
  exactly those rows, in descending order of \<open>last_seen\<close>, and the roster is returned in
  that order.
\<close>

theorem stale_rows_excluded:
  "(\<forall>e \<in> set (fetchActiveEditors db now pid). now - 30000 < last_seen e \<and> problem_id e = pid)
   \<and> (\<forall>r \<in> set (problem_collaboration db).
         last_seen r \<le> now - 30000 \<longrightarrow> (\<forall>u. r\<lparr>users := u\<rparr> \<notin> set (fetchActiveEditors db now pid)))
   \<and> (\<forall>rows. data (select_collaboration db pid (now - 30000)) = Some rows \<longrightarrow>
         sorted_wrt (\<lambda>a b. last_seen b \<le> last_seen a) rows
         \<and> set rows = {r \<in> set (problem_collaboration db).
                          problem_id r = pid \<and> now - 30000 < last_seen r})
   \<and> sorted_wrt (\<lambda>a b. last_seen b \<le> last_seen a) (fetchActiveEditors db now pid)"
proof -
  have fresh: "now - 30000 < last_seen e \<and> problem_id e = pid"
    if "e \<in> set (fetchActiveEditors db now pid)" for e
  proof -
    from fetch_from_query [OF that] obtain rows r u
      where rows: "data (select_collaboration db pid (now - 30000)) = Some rows"
        and r: "r \<in> set rows" and e: "e = r\<lparr>users := u\<rparr>"
      by blast
    from select_collaboration_data(1) [OF rows] r
    have "problem_id r = pid \<and> now - 30000 < last_seen r" by simp
    with e show ?thesis by simp
  qed
  have gone: "r\<lparr>users := u\<rparr> \<notin> set (fetchActiveEditors db now pid)"
    if "last_seen r \<le> now - 30000" for r u
    using that fresh [of "r\<lparr>users := u\<rparr>"] by auto
  from fresh gone select_collaboration_data [of db pid "now - 30000"]
    fetch_descending [of db now pid]
  show ?thesis
    by blast
qed

text \<open>
  At the example backend carol, seen 40 seconds before the fetch, is not in the roster; the
  rows handed over are alice (statement), alice (answer), bob, latest first.
\<close>

theorem stale_rows_excluded_witness:
  "row_carol \<in> set (problem_collaboration example_db)
   \<and> last_seen row_carol \<le> 100500 - 30000
   \<and> row_carol \<notin> set (fetchActiveEditors example_db 100500 7)
   \<and> data (select_collaboration example_db 7 (100500 - 30000))
       = Some [row_alice_statement, row_alice_answer, row_bob]
   \<and> sorted_wrt (\<lambda>a b. last_seen b \<le> last_seen a)
       [row_alice_statement, row_alice_answer, row_bob]
   \<and> fetchActiveEditors example_db 100500 7
       = [row_alice_statement\<lparr>users := Some user_alice\<rparr>, row_bob\<lparr>users := Some user_bob\<rparr>]"
proof -
  have mem: "row_carol \<in> set (problem_collaboration example_db)"
    by (simp add: example_db_def)
  have old: "last_seen row_carol \<le> 100500 - 30000"
    by (simp add: row_carol_def)
  have rows: "data (select_collaboration example_db 7 (100500 - 30000))
                = Some [row_alice_statement, row_alice_answer, row_bob]"
    by code_simp
  have roster: "fetchActiveEditors example_db 100500 7
       = [row_alice_statement\<lparr>users := Some user_alice\<rparr>, row_bob\<lparr>users := Some user_bob\<rparr>]"
    by code_simp
  have same: "row_carol\<lparr>users := None\<rparr> = row_carol"
    by (simp add: row_carol_def)
  from stale_rows_excluded [of example_db 100500 7] mem old
  have "row_carol\<lparr>users := None\<rparr> \<notin> set (fetchActiveEditors example_db 100500 7)"
    by blast
  moreover from stale_rows_excluded [of example_db 100500 7] rows
  have "sorted_wrt (\<lambda>a b. last_seen b \<le> last_seen a)
          [row_alice_statement, row_alice_answer, row_bob]"
    by blast
  ultimately show ?thesis
    using mem old rows roster same by simp
qed

text \<open>
  C8. The fetch is fail-soft. When the presence query fails the result is the empty
  sequence. When only the lookup of the profiles fails the result is the sequence of the
  rows of the problem seen in the last 30 seconds, latest first, each with a null profile.
\<close>

theorem fetch_fail_soft:
  "(collab_failure db \<noteq> None \<longrightarrow> fetchActiveEditors db now pid = [])
   \<and> (collab_failure db = None \<and> users_failure db \<noteq> None \<longrightarrow>
        fetchActiveEditors db now pid
          = map (\<lambda>editor. editor\<lparr>users := None\<rparr>)
              (order_desc (filter (\<lambda>r. problem_id r = pid \<and> now - 30000 < last_seen r)
                             (problem_collaboration db))))"
  by (auto simp: fetchActiveEditors_def select_collaboration_def select_users_def Let_def)

theorem fetch_fail_soft_witness:
  "collab_failure db_unreachable \<noteq> None
   \<and> fetchActiveEditors db_unreachable 100500 7 = []
   \<and> collab_failure db_without_profiles = None
   \<and> users_failure db_without_profiles \<noteq> None
   \<and> fetchActiveEditors db_without_profiles 100500 7
       = [row_alice_statement, row_alice_answer, row_bob]"
proof -
  have down: "collab_failure db_unreachable \<noteq> None"
    by (simp add: db_unreachable_def)
  have up: "collab_failure db_without_profiles = None \<and> users_failure db_without_profiles \<noteq> None"
    by (simp add: db_without_profiles_def example_db_def)
  have rows: "map (\<lambda>editor. editor\<lparr>users := None\<rparr>)
                (order_desc (filter (\<lambda>r. problem_id r = 7 \<and> 100500 - 30000 < last_seen r)
                               (problem_collaboration db_without_profiles)))
              = [row_alice_statement, row_alice_answer, row_bob]"
    by code_simp
  from fetch_fail_soft [of db_unreachable 100500 7] down
  have "fetchActiveEditors db_unreachable 100500 7 = []"
    by blast
  moreover from fetch_fail_soft [of db_without_profiles 100500 7] up
  have "fetchActiveEditors db_without_profiles 100500 7
          = map (\<lambda>editor. editor\<lparr>users := None\<rparr>)
              (order_desc (filter (\<lambda>r. problem_id r = 7 \<and> 100500 - 30000 < last_seen r)
                             (problem_collaboration db_without_profiles)))"
    by blast
  ultimately show ?thesis
    using down up rows by simp
qed

section \<open>Properties of the broadcast channels\<close>

lemmas broadcast_unfold =
  begin_broadcast_def begin_broadcast_with_def create_and_subscribe_def
  create_and_subscribe_with_def supabase_channel_def new_channel_def subscribe_def
  supabase_removeChannel_def emit_def set_state_def cache_set_def cache_delete_def
  resume_def send_update_def run_broadcast_def broadcastFieldUpdate_def state_of_def
  Let_def split_def

subsection \<open>Traces\<close>

lemma created_append: "created (xs @ ys) = created xs @ created ys"
  by (induction xs rule: created.induct) simp_all

lemma sent_append: "sent (xs @ ys) = sent xs @ sent ys"
  by (induction xs rule: sent.induct) simp_all

lemma created_console_log: "created (console_log r) = []"
  by (cases r) (simp_all add: console_log_def)

lemma sent_console_log: "sent (console_log r) = []"
  by (cases r) (simp_all add: console_log_def)

subsection \<open>Channel names\<close>

lemma digit_char_no_colon: "digit_char d \<noteq> CHR '':''"
proof -
  have "''0123456789'' ! (d mod 10) \<in> set ''0123456789''"
    by (rule nth_mem) simp
  then show ?thesis
    unfolding digit_char_def by auto
qed

lemma show_nat_no_colon: "CHR '':'' \<notin> set (show_nat n)"
proof (induction n rule: show_nat.induct)
  case (1 n)
  show ?case
  proof (cases "n < 10")
    case True
    then show ?thesis
      using digit_char_no_colon [of n] by (subst show_nat.simps) auto
  next
    case False
    with "1" have "CHR '':'' \<notin> set (show_nat (n div 10))" by simp
    with False show ?thesis
      using digit_char_no_colon [of "n mod 10"] by (subst show_nat.simps) auto
  qed
qed

lemma show_number_no_colon: "CHR '':'' \<notin> set (show_number i)"
  by (simp add: show_number_def show_nat_no_colon)

text \<open>No presence channel bears the name of an update channel, of whatever problem.\<close>

lemma topics_differ: "collaboration_topic i \<noteq> updates_topic j"
proof
  assume "collaboration_topic i = updates_topic j"
  then have "show_number i = show_number j @ '':updates''"
    by (simp add: collaboration_topic_def updates_topic_def)
  then have "CHR '':'' \<in> set (show_number i)"
    by simp
  with show_number_no_colon show False by blast
qed

subsection \<open>The cache keeps to the client's objects and to the update names\<close>

lemma cache_ok_initial: "cache_ok initial_world"
  by (simp add: cache_ok_def initial_world_def)

lemma cache_ok_set_state: "cache_ok w \<Longrightarrow> cache_ok (set_state ch s w)"
  by (simp add: cache_ok_def set_state_def)

lemma cache_ok_removeBroadcastChannel: "cache_ok w \<Longrightarrow> cache_ok (removeBroadcastChannel pid w)"
  by (auto simp: cache_ok_def removeBroadcastChannel_def broadcast_unfold split: option.splits)

lemma cache_ok_subscribeToCollaboration:
  "cache_ok w \<Longrightarrow> cache_ok (snd (subscribeToCollaboration pid w))"
  by (auto simp: cache_ok_def subscribeToCollaboration_def broadcast_unfold
        intro: less_SucI)

lemma cache_ok_subscribeToFieldUpdates:
  "cache_ok w \<Longrightarrow> cache_ok (snd (subscribeToFieldUpdates pid w))"
  by (auto simp: cache_ok_def subscribeToFieldUpdates_def broadcast_unfold
        split: option.splits intro: less_SucI)

lemma begin_broadcast_ok:
  assumes "cache_ok w"
  shows "cache_ok (snd (begin_broadcast e a w))"
    and "call_ok (snd (begin_broadcast e a w)) (fst (begin_broadcast e a w))"
    and "args (fst (begin_broadcast e a w)) = a"
  using assms
  by (auto simp: cache_ok_def call_ok_def broadcast_unfold split: option.splits
        intro: less_SucI)

lemma resume_ok:
  assumes "cache_ok w" and "call_ok w c"
  shows "cache_ok (snd (resume e c w))"
    and "call_ok (snd (resume e c w)) (fst (resume e c w))"
    and "args (fst (resume e c w)) = args c"
    and "channel (fst (resume e c w)) = channel c"
  using assms
  by (auto simp: cache_ok_def call_ok_def broadcast_unfold split: await_point.splits)

lemma run_broadcast_ok:
  assumes "cache_ok w"
  shows "cache_ok (snd (run_broadcast e a w))"
    and "call_ok (snd (run_broadcast e a w)) (fst (run_broadcast e a w))"
    and "args (fst (run_broadcast e a w)) = a"
proof -
  let ?b = "begin_broadcast e a w"
  let ?r1 = "resume e (fst ?b) (snd ?b)"
  let ?r2 = "resume e (fst ?r1) (snd ?r1)"
  let ?r3 = "resume e (fst ?r2) (snd ?r2)"
  have run: "run_broadcast e a w = ?r3"
    by (simp add: run_broadcast_def split_def Let_def)
  note b = begin_broadcast_ok [OF assms, of e a]
  note r1 = resume_ok [OF b(1) b(2), of e]
  note r2 = resume_ok [OF r1(1) r1(2), of e]
  note r3 = resume_ok [OF r2(1) r2(2), of e]
  show "cache_ok (snd (run_broadcast e a w))"
    unfolding run by (rule r3(1))
  show "call_ok (snd (run_broadcast e a w)) (fst (run_broadcast e a w))"
    unfolding run by (rule r3(2))
  show "args (fst (run_broadcast e a w)) = a"
    unfolding run using r3(3) r2(3) r1(3) b(3) by simp
qed

lemma cache_ok_broadcastFieldUpdate: "cache_ok w \<Longrightarrow> cache_ok (broadcastFieldUpdate e a w)"
  by (simp add: broadcastFieldUpdate_def run_broadcast_ok(1))

text \<open>Where a call stands, and what it has sent, after each of its stretches.\<close>

lemma resume_AwaitSubscribe:
  "pc c = AwaitSubscribe \<Longrightarrow>
     resume e c w =
       (c\<lparr>pc := AwaitSettle\<rparr>,
        emit (SetTimeout 100) (cache_set (problemId (args c)) (channel c) w))"
  by (simp add: resume_def)

lemma resume_AwaitSettle:
  "pc c = AwaitSettle \<Longrightarrow> resume e c w = send_update e (args c) (channel c) w"
  by (simp add: resume_def)

lemma resume_AwaitSend:
  "pc c = AwaitSend \<Longrightarrow>
     resume e c w = (c\<lparr>pc := Returned\<rparr>, w\<lparr>effects := effects w @ console_log (send_outcome e)\<rparr>)"
  by (simp add: resume_def)

lemma resume_Returned: "pc c = Returned \<Longrightarrow> resume e c w = (c, w)"
  by (simp add: resume_def)

lemma resume_pc: "pc (fst (resume e c w)) = next_pc (pc c)"
  by (simp add: resume_def send_update_def next_pc_def split: await_point.splits)

lemma resume_channel: "channel (fst (resume e c w)) = channel c"
  by (simp add: resume_def send_update_def split: await_point.splits)

lemma resume_args: "args (fst (resume e c w)) = args c"
  by (simp add: resume_def send_update_def split: await_point.splits)

lemma resume_sent:
  "sent (effects (snd (resume e c w)))
     = sent (effects w)
       @ (if pc c = AwaitSettle then [(channel c, field_update_message e (args c))] else [])"
  by (simp add: resume_def send_update_def emit_def cache_set_def sent_append sent_console_log
        split: await_point.splits)

lemma begin_broadcast_pc: "pc (fst (begin_broadcast e a w)) \<noteq> Returned"
  by (simp add: broadcast_unfold split: option.splits)

lemma begin_broadcast_args: "args (fst (begin_broadcast e a w)) = a"
  by (simp add: broadcast_unfold split: option.splits)

lemma begin_broadcast_sent:
  "sent (effects (snd (begin_broadcast e a w)))
     = sent (effects w)
       @ (if pc (fst (begin_broadcast e a w)) = AwaitSend
          then [(channel (fst (begin_broadcast e a w)), field_update_message e a)] else [])"
  by (simp add: broadcast_unfold sent_append split: option.splits)

lemma run_broadcast_stretches:
  "run_broadcast e a w =
     (let b = begin_broadcast e a w;
          r1 = resume e (fst b) (snd b);
          r2 = resume e (fst r1) (snd r1)
      in resume e (fst r2) (snd r2))"
  by (simp add: run_broadcast_def split_def Let_def)

text \<open>An uninterrupted call returns, having sent once, on the channel it ends up holding.\<close>

lemma run_broadcast_returns: "pc (fst (run_broadcast e a w)) = Returned"
  using begin_broadcast_pc [of e a w]
  by (cases "pc (fst (begin_broadcast e a w))")
     (simp_all add: run_broadcast_stretches Let_def resume_pc next_pc_def)

lemma run_broadcast_channel:
  "channel (fst (run_broadcast e a w)) = channel (fst (begin_broadcast e a w))"
  by (simp add: run_broadcast_stretches Let_def resume_channel)

lemma run_broadcast_sent:
  "sent (effects (broadcastFieldUpdate e a w))
     = sent (effects w) @ [(channel (fst (run_broadcast e a w)), field_update_message e a)]"
  using begin_broadcast_pc [of e a w]
  by (cases "pc (fst (begin_broadcast e a w))")
     (simp_all add: broadcastFieldUpdate_def run_broadcast_stretches Let_def resume_sent
        resume_pc resume_channel resume_args begin_broadcast_sent begin_broadcast_args
        next_pc_def)
subsection \<open>A call that finds a dead channel\<close>

text \<open>
  C3, as stated, fails: the state of the channel is read at the lookup only. The call that
  waits for its settle delay holds channel 0; when the channel is removed meanwhile, or
  reported errored, the call still sends on it, closed or errored as it is.
\<close>

theorem dead_channel_counterexample:
  "pc (fst waiting_call) = AwaitSettle
   \<and> channel (fst waiting_call) = \<lparr>ident = 0, topic = ''problem:7:updates''\<rparr>
   \<and> state_of removed_meanwhile (channel (fst waiting_call)) = ''closed''
   \<and> sent (effects (snd (resume calm (fst waiting_call) removed_meanwhile)))
       = [(channel (fst waiting_call), field_update_message calm statement_edit)]
   \<and> state_of errored_meanwhile (channel (fst waiting_call)) = ''errored''
   \<and> sent (effects (snd (resume calm (fst waiting_call) errored_meanwhile)))
       = [(channel (fst waiting_call), field_update_message calm statement_edit)]"
proof -
  have topic7: "updates_topic 7 = ''problem:7:updates''"
    by code_simp
  have none: "broadcastChannels initial_world (problemId statement_edit) = None"
    by (simp add: initial_world_def)
  have w: "waiting_call =
      (\<lparr>args = statement_edit, channel = \<lparr>ident = 0, topic = ''problem:7:updates''\<rparr>,
        pc = AwaitSettle\<rparr>,
       initial_world
         \<lparr>broadcastChannels := [7 \<mapsto> \<lparr>ident = 0, topic = ''problem:7:updates''\<rparr>],
          channel_state := (\<lambda>_. ''closed'')(0 := ''joining''),
          next_ident := 1,
          effects := [Create \<lparr>ident = 0, topic = ''problem:7:updates''\<rparr>,
                      Subscribe \<lparr>ident = 0, topic = ''problem:7:updates''\<rparr>,
                      SetTimeout 100]\<rparr>)"
    unfolding waiting_call_def
    by (simp add: broadcast_unfold resume_def emit_def cache_set_def initial_world_def
          statement_edit_def topic7)
  show ?thesis
    unfolding removed_meanwhile_def errored_meanwhile_def w
    by (simp add: resume_AwaitSettle send_update_def emit_def removeBroadcastChannel_def
          supabase_removeChannel_def cache_delete_def set_state_def state_of_def
          initial_world_def)
qed

text \<open>
  C3, amended. A channel that \<open>broadcastFieldUpdate\<close> finds closed or errored when it looks
  up the cache is not used for the send of that call: the call removes it and evicts the
  entry, creates and subscribes a new channel object, and then, whatever else has run while
  it waited, caches the new channel and sends its message on the new channel.
\<close>

theorem closed_channel_replaced:
  assumes "broadcastChannels w (problemId a) = Some old"
    and "state_of w old = ''closed'' \<or> state_of w old = ''errored''"
    and "ident old < next_ident w"
  shows "ident (new_channel (updates_topic (problemId a)) w) \<noteq> ident old
     \<and> fst (begin_broadcast e a w)
         = \<lparr>args = a, channel = new_channel (updates_topic (problemId a)) w, pc = AwaitSubscribe\<rparr>
     \<and> effects (snd (begin_broadcast e a w))
         = effects w
           @ [RemoveChannel old,
              Create (new_channel (updates_topic (problemId a)) w),
              Subscribe (new_channel (updates_topic (problemId a)) w)]
     \<and> broadcastChannels (snd (begin_broadcast e a w)) (problemId a) = None
     \<and> (\<forall>w1. fst (resume e (fst (begin_broadcast e a w)) w1)
                 = \<lparr>args = a, channel = new_channel (updates_topic (problemId a)) w,
                    pc = AwaitSettle\<rparr>
              \<and> broadcastChannels (snd (resume e (fst (begin_broadcast e a w)) w1)) (problemId a)
                 = Some (new_channel (updates_topic (problemId a)) w)
              \<and> sent (effects (snd (resume e (fst (begin_broadcast e a w)) w1)))
                 = sent (effects w1))
     \<and> (\<forall>w2. sent (effects (snd (resume e
                   \<lparr>args = a, channel = new_channel (updates_topic (problemId a)) w,
                    pc = AwaitSettle\<rparr> w2)))
              = sent (effects w2)
                @ [(new_channel (updates_topic (problemId a)) w, field_update_message e a)])
     \<and> effects (broadcastFieldUpdate e a w)
         = effects w
           @ [RemoveChannel old,
              Create (new_channel (updates_topic (problemId a)) w),
              Subscribe (new_channel (updates_topic (problemId a)) w),
              SetTimeout 100,
              Send (new_channel (updates_topic (problemId a)) w) (field_update_message e a)]
           @ console_log (send_outcome e)
     \<and> sent (effects (broadcastFieldUpdate e a w))
         = sent (effects w)
           @ [(new_channel (updates_topic (problemId a)) w, field_update_message e a)]
     \<and> broadcastChannels (broadcastFieldUpdate e a w) (problemId a)
         = Some (new_channel (updates_topic (problemId a)) w)"
proof -
  let ?new = "new_channel (updates_topic (problemId a)) w"
  let ?w0 = "cache_delete (problemId a) (supabase_removeChannel old w)"
  let ?w1 = "snd (create_and_subscribe a ?w0)"
  let ?w2 = "emit (SetTimeout 100) (cache_set (problemId a) ?new ?w1)"
  let ?w3 = "emit (Send ?new (field_update_message e a)) ?w2"
  let ?c1 = "\<lparr>args = a, channel = ?new, pc = AwaitSubscribe\<rparr>"
  let ?c2 = "\<lparr>args = a, channel = ?new, pc = AwaitSettle\<rparr>"
  let ?b = "begin_broadcast e a w"
  let ?r1 = "resume e (fst ?b) (snd ?b)"
  let ?r2 = "resume e (fst ?r1) (snd ?r1)"
  let ?r3 = "resume e (fst ?r2) (snd ?r2)"
  have new: "new_channel (updates_topic (problemId a)) ?w0 = ?new"
    by (simp add: new_channel_def cache_delete_def supabase_removeChannel_def emit_def
          set_state_def)
  have b: "?b = (?c1, ?w1)"
    using assms(1,2) new
    by (auto simp: begin_broadcast_def begin_broadcast_with_def create_and_subscribe_def
          create_and_subscribe_with_def supabase_channel_def Let_def)
  have e1: "effects ?w1 = effects w @ [RemoveChannel old, Create ?new, Subscribe ?new]"
      "broadcastChannels ?w1 (problemId a) = None"
    using new
    by (simp_all add: create_and_subscribe_def create_and_subscribe_with_def
          supabase_channel_def Let_def subscribe_def emit_def set_state_def cache_delete_def
          supabase_removeChannel_def)
  have any1: "fst (resume e ?c1 w1) = ?c2
        \<and> broadcastChannels (snd (resume e ?c1 w1)) (problemId a) = Some ?new
        \<and> sent (effects (snd (resume e ?c1 w1))) = sent (effects w1)" for w1
    by (simp add: resume_AwaitSubscribe emit_def cache_set_def sent_append)
  have any2: "sent (effects (snd (resume e ?c2 w2)))
        = sent (effects w2) @ [(?new, field_update_message e a)]" for w2
    by (simp add: resume_AwaitSettle send_update_def emit_def sent_append)
  have r1: "?r1 = (?c2, ?w2)"
    unfolding b by (simp add: resume_AwaitSubscribe)
  have r2: "?r2 = (\<lparr>args = a, channel = ?new, pc = AwaitSend\<rparr>, ?w3)"
    unfolding r1 by (simp add: resume_AwaitSettle send_update_def)
  have r3: "snd ?r3 = ?w3\<lparr>effects := effects ?w3 @ console_log (send_outcome e)\<rparr>"
    unfolding r2 by (simp add: resume_AwaitSend)
  have run: "broadcastFieldUpdate e a w = snd ?r3"
    by (simp add: broadcastFieldUpdate_def run_broadcast_stretches Let_def)
  have fresh: "ident ?new \<noteq> ident old"
    using assms(3) by (simp add: new_channel_def)
  have whole: "effects (snd ?r3)
         = effects w
           @ [RemoveChannel old, Create ?new, Subscribe ?new, SetTimeout 100,
              Send ?new (field_update_message e a)]
           @ console_log (send_outcome e)"
      "broadcastChannels (snd ?r3) (problemId a) = Some ?new"
    unfolding r3 by (simp_all add: e1 emit_def cache_set_def)
  have first: "fst ?b = ?c1" "effects (snd ?b) = effects w @ [RemoveChannel old, Create ?new, Subscribe ?new]"
      "broadcastChannels (snd ?b) (problemId a) = None"
    unfolding b by (simp_all add: e1)
  have waits: "\<forall>w1. fst (resume e (fst ?b) w1) = ?c2
        \<and> broadcastChannels (snd (resume e (fst ?b) w1)) (problemId a) = Some ?new
        \<and> sent (effects (snd (resume e (fst ?b) w1))) = sent (effects w1)"
    unfolding first(1) using any1 by blast
  have sends: "\<forall>w2. sent (effects (snd (resume e ?c2 w2)))
        = sent (effects w2) @ [(?new, field_update_message e a)]"
    using any2 by blast
  have alone: "effects (broadcastFieldUpdate e a w)
         = effects w
           @ [RemoveChannel old, Create ?new, Subscribe ?new, SetTimeout 100,
              Send ?new (field_update_message e a)]
           @ console_log (send_outcome e)"
      "broadcastChannels (broadcastFieldUpdate e a w) (problemId a) = Some ?new"
    unfolding run by (rule whole)+
  from alone(1) have alone_sent: "sent (effects (broadcastFieldUpdate e a w))
         = sent (effects w) @ [(?new, field_update_message e a)]"
    by (simp add: sent_append sent_console_log)
  from fresh first waits sends alone alone_sent show ?thesis
    by blast
qed

text \<open>
  In the errored world the call removes channel 0 and evicts it, creates channel 1, caches
  it and sends the statement on channel 1.
\<close>

theorem closed_channel_replaced_witness:
  "broadcastChannels errored_world (problemId statement_edit)
     = Some \<lparr>ident = 0, topic = ''problem:7:updates''\<rparr>
   \<and> state_of errored_world \<lparr>ident = 0, topic = ''problem:7:updates''\<rparr> = ''errored''
   \<and> ident \<lparr>ident = 0, topic = ''problem:7:updates''\<rparr> < next_ident errored_world
   \<and> broadcastChannels (snd (begin_broadcast calm statement_edit errored_world)) 7 = None
   \<and> sent (effects (broadcastFieldUpdate calm statement_edit errored_world))
       = [(\<lparr>ident = 1, topic = ''problem:7:updates''\<rparr>, field_update_message calm statement_edit)]
   \<and> broadcastChannels (broadcastFieldUpdate calm statement_edit errored_world) 7
       = Some \<lparr>ident = 1, topic = ''problem:7:updates''\<rparr>"
proof -
  let ?old = "\<lparr>ident = 0, topic = ''problem:7:updates''\<rparr>"
  have topic7: "updates_topic 7 = ''problem:7:updates''"
    by code_simp
  have cached: "broadcastChannels errored_world (problemId statement_edit) = Some ?old"
    by (simp add: errored_world_def initial_world_def subscribeToFieldUpdates_def
          statement_edit_def topic7 broadcast_unfold)
  have st: "state_of errored_world ?old = ''errored''"
    by (simp add: errored_world_def state_of_def set_state_def)
  then have dead: "state_of errored_world ?old = ''closed'' \<or> state_of errored_world ?old = ''errored''"
    by simp
  have known: "ident ?old < next_ident errored_world"
    by (simp add: errored_world_def initial_world_def subscribeToFieldUpdates_def
          broadcast_unfold)
  have new: "new_channel (updates_topic 7) errored_world
               = \<lparr>ident = 1, topic = ''problem:7:updates''\<rparr>"
    by (simp add: errored_world_def initial_world_def subscribeToFieldUpdates_def
          topic7 broadcast_unfold)
  have before: "sent (effects errored_world) = []"
    by (simp add: errored_world_def initial_world_def subscribeToFieldUpdates_def
          broadcast_unfold)
  have pid: "problemId statement_edit = 7"
    by (simp add: statement_edit_def)
  from closed_channel_replaced [OF cached dead known, of calm]
  have "sent (effects (broadcastFieldUpdate calm statement_edit errored_world))
          = sent (effects errored_world)
            @ [(new_channel (updates_topic (problemId statement_edit)) errored_world,
                field_update_message calm statement_edit)]"
    and "broadcastChannels (broadcastFieldUpdate calm statement_edit errored_world)
           (problemId statement_edit)
          = Some (new_channel (updates_topic (problemId statement_edit)) errored_world)"
    and "broadcastChannels (snd (begin_broadcast calm statement_edit errored_world))
           (problemId statement_edit) = None"
    by blast+
  with cached known st show ?thesis
    by (simp add: pid new before)
qed

subsection \<open>The two channels of a problem\<close>

lemma subscribeToFieldUpdates_channel:
  assumes "cache_ok w"
  shows "topic (fst (subscribeToFieldUpdates pid w)) = updates_topic pid"
    and "On (fst (subscribeToFieldUpdates pid w)) ''broadcast'' ''field_update''
           \<in> set (effects (snd (subscribeToFieldUpdates pid w)))"
    and "broadcastChannels (snd (subscribeToFieldUpdates pid w)) pid
           = Some (fst (subscribeToFieldUpdates pid w))"
  using assms
  by (auto simp: cache_ok_def subscribeToFieldUpdates_def broadcast_unfold split: option.splits)

lemma subscribeToCollaboration_channel:
  "fst (subscribeToCollaboration pid w) = new_channel (collaboration_topic pid) w"
  "broadcastChannels (snd (subscribeToCollaboration pid w)) = broadcastChannels w"
  by (simp_all add: subscribeToCollaboration_def broadcast_unfold)

text \<open>
  C4, as stated, fails: the message for problem 7 goes out on the channel named
  \<open>problem:7:updates\<close>, and the presence channel is named \<open>problem:7\<close>; neither name
  begins with \<open>document\<close>.
\<close>

theorem channel_names_counterexample:
  "topic (fst (hd (sent (effects (broadcastFieldUpdate calm statement_edit initial_world)))))
     \<noteq> ''document:7:updates''
   \<and> topic (fst (subscribeToFieldUpdates 7 initial_world)) \<noteq> ''document:7:updates''
   \<and> topic (fst (subscribeToCollaboration 7 initial_world)) \<noteq> ''document:7''"
  by code_simp

text \<open>
  C4, amended. For every problem id, the field-update message
  \<open>{field_name, content, user_id, timestamp}\<close> is sent, as a broadcast with event tag
  \<open>field_update\<close>, on a channel named \<open>problem:{id}:updates\<close>, and the listener for that
  event tag is attached to a channel of that name, which is the cached one; the presence
  channel is named \<open>problem:{id}\<close>. The two never share identity: no presence name is an
  update name, and the presence channel is a new object that never enters the cache.
\<close>

theorem update_and_presence_channels:
  assumes "cache_ok w"
  shows "sent (effects (broadcastFieldUpdate e a w))
           = sent (effects w)
             @ [(channel (fst (run_broadcast e a w)),
                 \<lparr>msg_type = ''broadcast'', msg_event = ''field_update'',
                  payload = \<lparr>fu_field_name = fieldName a, fu_content = content a,
                             fu_user_id = userId a, fu_timestamp = clock e\<rparr>\<rparr>)]
     \<and> topic (channel (fst (run_broadcast e a w)))
         = ''problem:'' @ show_number (problemId a) @ '':updates''
     \<and> topic (fst (subscribeToFieldUpdates pid w)) = ''problem:'' @ show_number pid @ '':updates''
     \<and> On (fst (subscribeToFieldUpdates pid w)) ''broadcast'' ''field_update''
         \<in> set (effects (snd (subscribeToFieldUpdates pid w)))
     \<and> broadcastChannels (snd (subscribeToFieldUpdates pid w)) pid
         = Some (fst (subscribeToFieldUpdates pid w))
     \<and> topic (fst (subscribeToCollaboration pid w)) = ''problem:'' @ show_number pid
     \<and> (\<forall>i j. collaboration_topic i \<noteq> updates_topic j)
     \<and> (\<forall>p ch. broadcastChannels w p = Some ch \<longrightarrow>
           ident ch \<noteq> ident (fst (subscribeToCollaboration pid w)))
     \<and> broadcastChannels (snd (subscribeToCollaboration pid w)) = broadcastChannels w"
proof -
  have "topic (channel (fst (run_broadcast e a w))) = updates_topic (problemId a)"
    using run_broadcast_ok(2,3) [OF assms, of e a] by (simp add: call_ok_def)
  moreover have "\<forall>p ch. broadcastChannels w p = Some ch \<longrightarrow>
                   ident ch \<noteq> ident (fst (subscribeToCollaboration pid w))"
    using assms by (fastforce simp: cache_ok_def subscribeToCollaboration_channel new_channel_def)
  ultimately show ?thesis
    using run_broadcast_sent [of e a w] subscribeToFieldUpdates_channel [OF assms, of pid]
      topics_differ
    by (simp add: field_update_message_def updates_topic_def collaboration_topic_def
          subscribeToCollaboration_channel new_channel_def)
qed

text \<open>
  In the errored world the statement goes out on \<open>problem:7:updates\<close>; a presence
  subscription made there is channel 1 under the name \<open>problem:7\<close>.
\<close>

theorem update_and_presence_channels_witness:
  "cache_ok errored_world
   \<and> map topic (map fst (sent (effects (broadcastFieldUpdate calm statement_edit errored_world))))
       = [''problem:7:updates'']
   \<and> map msg_event (map snd (sent (effects (broadcastFieldUpdate calm statement_edit errored_world))))
       = [''field_update'']
   \<and> topic (fst (subscribeToFieldUpdates 7 errored_world)) = ''problem:7:updates''
   \<and> fst (subscribeToCollaboration 7 errored_world) = \<lparr>ident = 1, topic = ''problem:7''\<rparr>
   \<and> broadcastChannels errored_world 7 = Some \<lparr>ident = 0, topic = ''problem:7:updates''\<rparr>"
proof -
  have ok: "cache_ok errored_world"
    unfolding errored_world_def
    by (intro cache_ok_set_state cache_ok_subscribeToFieldUpdates cache_ok_initial)
  have seven: "show_number 7 = ''7''"
    by code_simp
  have pid: "problemId statement_edit = 7"
    by (simp add: statement_edit_def)
  have before: "sent (effects errored_world) = []"
    by (simp add: errored_world_def initial_world_def subscribeToFieldUpdates_def
          broadcast_unfold)
  have presence: "fst (subscribeToCollaboration 7 errored_world) = \<lparr>ident = 1, topic = ''problem:7''\<rparr>"
    by (simp add: subscribeToCollaboration_channel collaboration_topic_def seven
          errored_world_def initial_world_def subscribeToFieldUpdates_def broadcast_unfold)
  have cached: "broadcastChannels errored_world 7 = Some \<lparr>ident = 0, topic = ''problem:7:updates''\<rparr>"
    by (simp add: errored_world_def initial_world_def subscribeToFieldUpdates_def
          updates_topic_def seven broadcast_unfold)
  from update_and_presence_channels [OF ok, of calm statement_edit 7] ok presence cached
  show ?thesis
    by (simp add: pid seven before)
qed

subsection \<open>Calls that overlap\<close>

lemma hands_out_supabase_channel: "hands_out supabase_channel"
  by (simp add: hands_out_def supabase_channel_def new_channel_def emit_def set_state_def
        Let_def)

lemma hands_out_channel_by_topic: "hands_out channel_by_topic"
  by (simp add: hands_out_def channel_by_topic_def emit_def)

lemma handed_supabase_channel:
  "first_handed supabase_channel name w = \<lparr>ident = next_ident w, topic = name\<rparr>"
  "second_handed supabase_channel name w = \<lparr>ident = Suc (next_ident w), topic = name\<rparr>"
  by (simp_all add: first_handed_def second_handed_def supabase_channel_def new_channel_def
        subscribe_def emit_def set_state_def Let_def)

lemma handed_channel_by_topic:
  "first_handed channel_by_topic name w = \<lparr>ident = 0, topic = name\<rparr>"
  "second_handed channel_by_topic name w = \<lparr>ident = 0, topic = name\<rparr>"
  by (simp_all add: first_handed_def second_handed_def channel_by_topic_def)

text \<open>A call that finds no channel cached asks the client for one and subscribes it.\<close>

lemma begin_broadcast_with_absent:
  assumes "broadcastChannels w (problemId a) = None"
  shows "begin_broadcast_with chan e a w =
           (\<lparr>args = a, channel = fst (chan (updates_topic (problemId a)) w), pc = AwaitSubscribe\<rparr>,
            subscribe (fst (chan (updates_topic (problemId a)) w))
              (snd (chan (updates_topic (problemId a)) w)))"
  using assms
  by (simp add: begin_broadcast_with_def create_and_subscribe_with_def split_def Let_def)

text \<open>A call that finds a live channel cached creates nothing and holds that channel.\<close>

lemma begin_broadcast_with_live:
  assumes "broadcastChannels w (problemId a) = Some ch"
    and "state_of w ch \<noteq> ''closed''" and "state_of w ch \<noteq> ''errored''"
  shows "channel (fst (begin_broadcast_with chan e a w)) = ch"
    and "created (effects (snd (begin_broadcast_with chan e a w))) = created (effects w)"
  using assms
  by (simp_all add: begin_broadcast_with_def send_update_def emit_def created_append)

text \<open>What a stretch after the first changes.\<close>

lemma resume_created: "created (effects (snd (resume e c w))) = created (effects w)"
  by (simp add: resume_def send_update_def emit_def cache_set_def created_append
        created_console_log split: await_point.splits)

lemma resume_cache:
  "broadcastChannels (snd (resume e c w)) =
     (if pc c = AwaitSubscribe
      then (broadcastChannels w)(problemId (args c) \<mapsto> channel c)
      else broadcastChannels w)"
  by (simp add: resume_def send_update_def emit_def cache_set_def split: await_point.splits)

lemma has_cached_resume: "has_cached (fst (resume e c w))"
  by (simp add: has_cached_def resume_pc next_pc_def split: await_point.splits)

lemma has_sent_resume:
  "has_sent (fst (resume e c w)) \<longleftrightarrow> has_sent c \<or> pc c = AwaitSettle"
  by (simp add: has_sent_def resume_pc next_pc_def split: await_point.splits)

lemma interleave_append:
  "interleave chan e as (first @ rest) w
     = foldl (run_stretch chan e as) (interleave chan e as first w) rest"
  by (simp add: interleave_def)

text \<open>Two calls for one problem that both begin before either resumes.\<close>

lemma both_begin:
  assumes "hands_out chan"
    and "broadcastChannels w (problemId a) = None" and "problemId b = problemId a"
  shows "interleave chan e [a, b] [0, 1] w =
           ([Some \<lparr>args = a, channel = first_handed chan (updates_topic (problemId a)) w,
                    pc = AwaitSubscribe\<rparr>,
             Some \<lparr>args = b, channel = second_handed chan (updates_topic (problemId a)) w,
                    pc = AwaitSubscribe\<rparr>],
            subscribe (second_handed chan (updates_topic (problemId a)) w)
              (snd (chan (updates_topic (problemId a))
                 (subscribe (first_handed chan (updates_topic (problemId a)) w)
                    (snd (chan (updates_topic (problemId a)) w))))))"
proof -
  let ?t = "updates_topic (problemId a)"
  let ?wA = "subscribe (fst (chan ?t w)) (snd (chan ?t w))"
  have "broadcastChannels ?wA = broadcastChannels w"
    using assms(1) by (simp add: hands_out_def subscribe_def emit_def set_state_def)
  with assms(2,3) have none: "broadcastChannels ?wA (problemId b) = None"
    by simp
  show ?thesis
    using assms(2,3)
    by (simp add: interleave_def run_stretch_def Let_def begin_broadcast_with_absent
          begin_broadcast_with_absent [OF none] first_handed_def second_handed_def)
qed

lemma both_begin_effects:
  assumes "hands_out chan"
    and "broadcastChannels w (problemId a) = None" and "problemId b = problemId a"
  shows "effects (snd (interleave chan e [a, b] [0, 1] w))
           = effects w
             @ [Create (first_handed chan (updates_topic (problemId a)) w),
                Subscribe (first_handed chan (updates_topic (problemId a)) w),
                Create (second_handed chan (updates_topic (problemId a)) w),
                Subscribe (second_handed chan (updates_topic (problemId a)) w)]"
    and "broadcastChannels (snd (interleave chan e [a, b] [0, 1] w)) = broadcastChannels w"
  unfolding both_begin [OF assms]
  using assms(1)
  by (simp_all add: hands_out_def subscribe_def emit_def set_state_def first_handed_def
        second_handed_def)

lemma two_calls_begun:
  assumes "hands_out chan"
    and "broadcastChannels w (problemId a) = None" and "problemId b = problemId a"
  shows "two_calls e a b (first_handed chan (updates_topic (problemId a)) w)
           (second_handed chan (updates_topic (problemId a)) w)
           (created (effects w)) (sent (effects w)) (interleave chan e [a, b] [0, 1] w)"
proof -
  note fx = both_begin_effects [OF assms, of e]
  have "fst (interleave chan e [a, b] [0, 1] w) =
           [Some \<lparr>args = a, channel = first_handed chan (updates_topic (problemId a)) w,
                    pc = AwaitSubscribe\<rparr>,
            Some \<lparr>args = b, channel = second_handed chan (updates_topic (problemId a)) w,
                    pc = AwaitSubscribe\<rparr>]"
    unfolding both_begin [OF assms] by simp
  then show ?thesis
    unfolding two_calls_def
    using fx assms(2)
    by (simp add: created_append sent_append has_sent_def has_cached_def)
qed

text \<open>Every further stretch keeps the two calls as described.\<close>

lemma two_calls_stretch:
  assumes inv: "two_calls e a b chA chB created0 sent0 s" and same: "problemId b = problemId a"
  shows "two_calls e a b chA chB created0 sent0 (run_stretch chan e [a, b] s i)"
proof -
  from inv obtain cA cB S where
      cs: "fst s = [Some cA, Some cB]"
      and hold: "args cA = a" "channel cA = chA" "args cB = b" "channel cB = chB"
      and cr: "created (effects (snd s)) = created0 @ [chA, chB]"
      and se: "sent (effects (snd s)) = sent0 @ S"
      and setS: "set S = (if has_sent cA then {(chA, field_update_message e a)} else {})
                  \<union> (if has_sent cB then {(chB, field_update_message e b)} else {})"
      and lenS: "length S = (if has_sent cA then 1 else 0) + (if has_sent cB then 1 else 0)"
      and none: "\<not> has_cached cA \<and> \<not> has_cached cB \<longrightarrow>
              broadcastChannels (snd s) (problemId a) = None"
      and some: "has_cached cA \<or> has_cached cB \<longrightarrow>
              broadcastChannels (snd s) (problemId a) = Some chA \<and> has_cached cA
              \<or> broadcastChannels (snd s) (problemId a) = Some chB \<and> has_cached cB"
    unfolding two_calls_def by blast
  obtain w where s: "s = ([Some cA, Some cB], w)"
    using cs by (cases s) simp
  consider (first) "i = 0" | (second) "i = 1" | (none) "2 \<le> i"
    by linarith
  then show ?thesis
  proof cases
    case none
    then have "run_stretch chan e [a, b] s i = s"
      by (simp add: run_stretch_def s)
    with inv show ?thesis by simp
  next
    case first
    let ?r = "resume e cA w"
    have run: "run_stretch chan e [a, b] s i = ([Some (fst ?r), Some cB], snd ?r)"
      by (simp add: run_stretch_def s first split_def Let_def)
    let ?S = "S @ (if pc cA = AwaitSettle then [(chA, field_update_message e a)] else [])"
    have unsent: "pc cA = AwaitSettle \<Longrightarrow> \<not> has_sent cA"
      by (simp add: has_sent_def)
    have "sent (effects (snd ?r)) = sent0 @ ?S"
      using se hold by (simp add: resume_sent s)
    moreover have "set ?S = (if has_sent (fst ?r) then {(chA, field_update_message e a)} else {})
                  \<union> (if has_sent cB then {(chB, field_update_message e b)} else {})"
      using setS unsent by (auto simp: has_sent_resume)
    moreover have "length ?S = (if has_sent (fst ?r) then 1 else 0) + (if has_sent cB then 1 else 0)"
      using lenS unsent by (auto simp: has_sent_resume)
    moreover have "broadcastChannels (snd ?r) (problemId a) = Some chA \<and> has_cached (fst ?r)
              \<or> broadcastChannels (snd ?r) (problemId a) = Some chB \<and> has_cached cB"
    proof (cases "pc cA = AwaitSubscribe")
      case True
      with hold have "broadcastChannels (snd ?r) (problemId a) = Some chA"
        by (simp add: resume_cache)
      then show ?thesis by (simp add: has_cached_resume)
    next
      case False
      then have "broadcastChannels (snd ?r) = broadcastChannels w" "has_cached cA"
        by (simp_all add: resume_cache has_cached_def)
      with some show ?thesis by (auto simp: has_cached_resume s)
    qed
    ultimately show ?thesis
      unfolding two_calls_def run
      using hold cr
      by (auto simp: resume_args resume_channel resume_created has_cached_resume s
            intro!: exI [of _ "fst ?r"] exI [of _ cB] exI [of _ ?S])
  next
    case second
    let ?r = "resume e cB w"
    have run: "run_stretch chan e [a, b] s i = ([Some cA, Some (fst ?r)], snd ?r)"
      by (simp add: run_stretch_def s second split_def Let_def)
    let ?S = "S @ (if pc cB = AwaitSettle then [(chB, field_update_message e b)] else [])"
    have unsent: "pc cB = AwaitSettle \<Longrightarrow> \<not> has_sent cB"
      by (simp add: has_sent_def)
    have "sent (effects (snd ?r)) = sent0 @ ?S"
      using se hold by (simp add: resume_sent s)
    moreover have "set ?S = (if has_sent cA then {(chA, field_update_message e a)} else {})
                  \<union> (if has_sent (fst ?r) then {(chB, field_update_message e b)} else {})"
      using setS unsent by (auto simp: has_sent_resume)
    moreover have "length ?S = (if has_sent cA then 1 else 0) + (if has_sent (fst ?r) then 1 else 0)"
      using lenS unsent by (auto simp: has_sent_resume)
    moreover have "broadcastChannels (snd ?r) (problemId a) = Some chA \<and> has_cached cA
              \<or> broadcastChannels (snd ?r) (problemId a) = Some chB \<and> has_cached (fst ?r)"
    proof (cases "pc cB = AwaitSubscribe")
      case True
      with hold same have "broadcastChannels (snd ?r) (problemId a) = Some chB"
        by (simp add: resume_cache)
      then show ?thesis by (simp add: has_cached_resume)
    next
      case False
      then have "broadcastChannels (snd ?r) = broadcastChannels w" "has_cached cB"
        by (simp_all add: resume_cache has_cached_def)
      with some show ?thesis by (auto simp: has_cached_resume s)
    qed
    ultimately show ?thesis
      unfolding two_calls_def run
      using hold cr
      by (auto simp: resume_args resume_channel resume_created has_cached_resume s
            intro!: exI [of _ cA] exI [of _ "fst ?r"] exI [of _ ?S])
  qed
qed

lemma two_calls_stretches:
  assumes "two_calls e a b chA chB created0 sent0 s" and "problemId b = problemId a"
  shows "two_calls e a b chA chB created0 sent0 (foldl (run_stretch chan e [a, b]) s rest)"
  using assms(1)
proof (induction rest arbitrary: s)
  case Nil
  then show ?case by simp
next
  case (Cons i rest)
  from two_calls_stretch [OF Cons.prems assms(2), of chan i]
  have "two_calls e a b chA chB created0 sent0 (run_stretch chan e [a, b] s i)" .
  from Cons.IH [OF this] show ?case by simp
qed

lemma two_calls_always:
  assumes "hands_out chan"
    and "broadcastChannels w (problemId a) = None" and "problemId b = problemId a"
  shows "two_calls e a b (first_handed chan (updates_topic (problemId a)) w)
           (second_handed chan (updates_topic (problemId a)) w)
           (created (effects w)) (sent (effects w))
           (interleave chan e [a, b] ([0, 1] @ rest) w)"
  unfolding interleave_append
  by (rule two_calls_stretches [OF two_calls_begun [OF assms] assms(3)])

text \<open>The same with the client that hands out a new object on every request.\<close>

lemma begin_broadcast_with_supabase_channel:
  "begin_broadcast_with supabase_channel e a w = begin_broadcast e a w"
  by (simp add: begin_broadcast_def)

lemma begin_broadcast_absent:
  assumes "broadcastChannels w (problemId a) = None"
  shows "begin_broadcast e a w =
           (\<lparr>args = a, channel = new_channel (updates_topic (problemId a)) w, pc = AwaitSubscribe\<rparr>,
            w\<lparr>channel_state := (channel_state w)(next_ident w := ''joining''),
              next_ident := Suc (next_ident w),
              effects := effects w
                @ [Create (new_channel (updates_topic (problemId a)) w),
                   Subscribe (new_channel (updates_topic (problemId a)) w)]\<rparr>)"
  using assms by (simp add: broadcast_unfold)

lemma begin_broadcast_joining:
  assumes "broadcastChannels w (problemId a) = Some ch" and "state_of w ch = ''joining''"
  shows "begin_broadcast e a w =
           (\<lparr>args = a, channel = ch, pc = AwaitSettle\<rparr>, emit (SetTimeout 100) w)"
  using assms by (simp add: begin_broadcast_def begin_broadcast_with_def)

lemma both_begin_new:
  assumes "broadcastChannels w (problemId a) = None" and "problemId b = problemId a"
  shows "interleave supabase_channel e [a, b] [0, 1] w =
           ([Some \<lparr>args = a, channel = \<lparr>ident = next_ident w, topic = updates_topic (problemId a)\<rparr>,
                    pc = AwaitSubscribe\<rparr>,
             Some \<lparr>args = b, channel = \<lparr>ident = Suc (next_ident w), topic = updates_topic (problemId a)\<rparr>,
                    pc = AwaitSubscribe\<rparr>],
            w\<lparr>channel_state := (channel_state w)
                 (next_ident w := ''joining'', Suc (next_ident w) := ''joining''),
              next_ident := Suc (Suc (next_ident w)),
              effects := effects w
                @ [Create \<lparr>ident = next_ident w, topic = updates_topic (problemId a)\<rparr>,
                   Subscribe \<lparr>ident = next_ident w, topic = updates_topic (problemId a)\<rparr>,
                   Create \<lparr>ident = Suc (next_ident w), topic = updates_topic (problemId a)\<rparr>,
                   Subscribe \<lparr>ident = Suc (next_ident w), topic = updates_topic (problemId a)\<rparr>]\<rparr>)"
  using assms
  by (simp add: interleave_def run_stretch_def Let_def begin_broadcast_with_supabase_channel
        begin_broadcast_absent new_channel_def)

text \<open>The calls resume in turn, the first caller first.\<close>

lemma both_finish_in_turn:
  assumes "broadcastChannels w (problemId a) = None" and "problemId b = problemId a"
  shows "interleave supabase_channel e [a, b] [0, 1, 0, 1, 0, 1, 0, 1] w =
           ([Some \<lparr>args = a, channel = \<lparr>ident = next_ident w, topic = updates_topic (problemId a)\<rparr>,
                    pc = Returned\<rparr>,
             Some \<lparr>args = b, channel = \<lparr>ident = Suc (next_ident w), topic = updates_topic (problemId a)\<rparr>,
                    pc = Returned\<rparr>],
            w\<lparr>broadcastChannels := (broadcastChannels w)
                 (problemId a \<mapsto> \<lparr>ident = Suc (next_ident w), topic = updates_topic (problemId a)\<rparr>),
              channel_state := (channel_state w)
                 (next_ident w := ''joining'', Suc (next_ident w) := ''joining''),
              next_ident := Suc (Suc (next_ident w)),
              effects := effects w
                @ [Create \<lparr>ident = next_ident w, topic = updates_topic (problemId a)\<rparr>,
                   Subscribe \<lparr>ident = next_ident w, topic = updates_topic (problemId a)\<rparr>,
                   Create \<lparr>ident = Suc (next_ident w), topic = updates_topic (problemId a)\<rparr>,
                   Subscribe \<lparr>ident = Suc (next_ident w), topic = updates_topic (problemId a)\<rparr>,
                   SetTimeout 100, SetTimeout 100,
                   Send \<lparr>ident = next_ident w, topic = updates_topic (problemId a)\<rparr>
                     (field_update_message e a),
                   Send \<lparr>ident = Suc (next_ident w), topic = updates_topic (problemId a)\<rparr>
                     (field_update_message e b)]
                @ console_log (send_outcome e) @ console_log (send_outcome e)\<rparr>)"
proof -
  have split: "[0, 1, 0, 1, 0, 1, 0, 1] = [0, 1] @ [0, 1, 0, 1, 0, 1 :: nat]"
    by simp
  show ?thesis
    unfolding split interleave_append both_begin_new [OF assms]
    using assms(2)
    by (simp add: run_stretch_def Let_def resume_AwaitSubscribe resume_AwaitSettle resume_AwaitSend
          send_update_def emit_def cache_set_def)
qed

text \<open>The calls resume in turn, the second caller first.\<close>

lemma both_finish_second_first:
  assumes "broadcastChannels w (problemId a) = None" and "problemId b = problemId a"
  shows "interleave supabase_channel e [a, b] [0, 1, 1, 0, 1, 0, 1, 0] w =
           ([Some \<lparr>args = a, channel = \<lparr>ident = next_ident w, topic = updates_topic (problemId a)\<rparr>,
                    pc = Returned\<rparr>,
             Some \<lparr>args = b, channel = \<lparr>ident = Suc (next_ident w), topic = updates_topic (problemId a)\<rparr>,
                    pc = Returned\<rparr>],
            w\<lparr>broadcastChannels := (broadcastChannels w)
                 (problemId a \<mapsto> \<lparr>ident = next_ident w, topic = updates_topic (problemId a)\<rparr>),
              channel_state := (channel_state w)
                 (next_ident w := ''joining'', Suc (next_ident w) := ''joining''),
              next_ident := Suc (Suc (next_ident w)),
              effects := effects w
                @ [Create \<lparr>ident = next_ident w, topic = updates_topic (problemId a)\<rparr>,
                   Subscribe \<lparr>ident = next_ident w, topic = updates_topic (problemId a)\<rparr>,
                   Create \<lparr>ident = Suc (next_ident w), topic = updates_topic (problemId a)\<rparr>,
                   Subscribe \<lparr>ident = Suc (next_ident w), topic = updates_topic (problemId a)\<rparr>,
                   SetTimeout 100, SetTimeout 100,
                   Send \<lparr>ident = Suc (next_ident w), topic = updates_topic (problemId a)\<rparr>
                     (field_update_message e b),
                   Send \<lparr>ident = next_ident w, topic = updates_topic (problemId a)\<rparr>
                     (field_update_message e a)]
                @ console_log (send_outcome e) @ console_log (send_outcome e)\<rparr>)"
proof -
  have split: "[0, 1, 1, 0, 1, 0, 1, 0] = [0, 1] @ [1, 0, 1, 0, 1, 0 :: nat]"
    by simp
  show ?thesis
    unfolding split interleave_append both_begin_new [OF assms]
    using assms(2)
    by (simp add: run_stretch_def Let_def resume_AwaitSubscribe resume_AwaitSettle resume_AwaitSend
          send_update_def emit_def cache_set_def)
qed

text \<open>Calls one after the other: the first creates and caches, the second reuses.\<close>

lemma broadcast_absent:
  assumes "broadcastChannels w (problemId a) = None"
  shows "broadcastFieldUpdate e a w =
           w\<lparr>broadcastChannels := (broadcastChannels w)
                (problemId a \<mapsto> new_channel (updates_topic (problemId a)) w),
             channel_state := (channel_state w)(next_ident w := ''joining''),
             next_ident := Suc (next_ident w),
             effects := effects w
               @ [Create (new_channel (updates_topic (problemId a)) w),
                  Subscribe (new_channel (updates_topic (problemId a)) w),
                  SetTimeout 100,
                  Send (new_channel (updates_topic (problemId a)) w) (field_update_message e a)]
               @ console_log (send_outcome e)\<rparr>"
  unfolding broadcastFieldUpdate_def run_broadcast_stretches begin_broadcast_absent [OF assms]
  by (simp add: Let_def resume_AwaitSubscribe resume_AwaitSettle resume_AwaitSend
        send_update_def emit_def cache_set_def)

lemma broadcast_joining:
  assumes "broadcastChannels w (problemId a) = Some ch" and "state_of w ch = ''joining''"
  shows "broadcastFieldUpdate e a w =
           w\<lparr>effects := effects w
               @ [SetTimeout 100, Send ch (field_update_message e a)]
               @ console_log (send_outcome e)\<rparr>"
  unfolding broadcastFieldUpdate_def run_broadcast_stretches begin_broadcast_joining [OF assms]
  by (simp add: Let_def resume_AwaitSettle resume_AwaitSend resume_Returned
        send_update_def emit_def)

lemma broadcast_twice:
  assumes "broadcastChannels w (problemId a) = None" and "problemId b = problemId a"
  shows "effects (broadcastFieldUpdate e b (broadcastFieldUpdate e a w)) =
           effects w
           @ [Create (new_channel (updates_topic (problemId a)) w),
              Subscribe (new_channel (updates_topic (problemId a)) w),
              SetTimeout 100,
              Send (new_channel (updates_topic (problemId a)) w) (field_update_message e a)]
           @ console_log (send_outcome e)
           @ [SetTimeout 100,
              Send (new_channel (updates_topic (problemId a)) w) (field_update_message e b)]
           @ console_log (send_outcome e)"
proof -
  let ?w = "broadcastFieldUpdate e a w"
  let ?ch = "new_channel (updates_topic (problemId a)) w"
  have cached: "broadcastChannels ?w (problemId b) = Some ?ch"
    unfolding broadcast_absent [OF assms(1)] using assms(2) by simp
  have joining: "state_of ?w ?ch = ''joining''"
    unfolding broadcast_absent [OF assms(1)] by (simp add: state_of_def new_channel_def)
  show ?thesis
    unfolding broadcast_joining [OF cached joining]
    unfolding broadcast_absent [OF assms(1)]
    by simp
qed

text \<open>
  C9, as stated, fails: of two calls for problem 7 that both begin before either resumes, the
  second does not await the first. With the client that hands out a new object on every
  request the calls create channel 0 and channel 1 and each sends on its own; with the
  client that keeps one object for a name the second call too asks for the channel and
  subscribes it, before anything is cached.
\<close>

theorem overlapping_broadcasts_counterexample:
  "map ident (created (effects (snd
      (interleave supabase_channel calm [statement_edit, answer_edit]
         [0, 1, 0, 1, 0, 1, 0, 1] initial_world))))
     = [0, 1]
   \<and> map ident (map fst (sent (effects (snd
      (interleave supabase_channel calm [statement_edit, answer_edit]
         [0, 1, 0, 1, 0, 1, 0, 1] initial_world)))))
     = [0, 1]
   \<and> effects (snd (interleave channel_by_topic calm [statement_edit, answer_edit] [0, 1]
        initial_world))
     = [Create \<lparr>ident = 0, topic = ''problem:7:updates''\<rparr>,
        Subscribe \<lparr>ident = 0, topic = ''problem:7:updates''\<rparr>,
        Create \<lparr>ident = 0, topic = ''problem:7:updates''\<rparr>,
        Subscribe \<lparr>ident = 0, topic = ''problem:7:updates''\<rparr>]
   \<and> broadcastChannels (snd (interleave channel_by_topic calm [statement_edit, answer_edit]
        [0, 1] initial_world)) 7 = None"
  by code_simp

text \<open>
  C9, amended. When two calls of \<open>broadcastFieldUpdate\<close> for the same problem both begin
  while no channel is cached, the create-and-subscribe sequence is not serialised: each call
  itself asks the client for the update channel and subscribes it before anything is
  cached, whatever object the client hands out, and no later step asks again. With the
  client that hands out a new object on every request these are two distinct channels;
  however the later steps are scheduled, each call holds its own channel and sends its one
  message on it, and once a call has resumed the cache holds the channel of one of the calls
  that have (the second caller's when the calls resume in turn, first caller first; the
  first caller's when the second resumes first). A call that begins while a channel that is
  neither closed nor errored is cached creates no channel and uses the cached one, as the
  second of two calls made one after the other does.
\<close>

theorem overlapping_broadcasts_not_serialised:
  assumes "hands_out chan"
    and "broadcastChannels w (problemId a) = None" and "problemId b = problemId a"
  shows "effects (snd (interleave chan e [a, b] [0, 1] w))
           = effects w
             @ [Create (fst (chan (updates_topic (problemId a)) w)),
                Subscribe (fst (chan (updates_topic (problemId a)) w)),
                Create (fst (chan (updates_topic (problemId a))
                   (subscribe (fst (chan (updates_topic (problemId a)) w))
                      (snd (chan (updates_topic (problemId a)) w))))),
                Subscribe (fst (chan (updates_topic (problemId a))
                   (subscribe (fst (chan (updates_topic (problemId a)) w))
                      (snd (chan (updates_topic (problemId a)) w)))))]
     \<and> broadcastChannels (snd (interleave chan e [a, b] [0, 1] w)) (problemId a) = None
     \<and> (\<forall>rest. created (effects (snd (interleave chan e [a, b] ([0, 1] @ rest) w)))
           = created (effects w)
             @ [fst (chan (updates_topic (problemId a)) w),
                fst (chan (updates_topic (problemId a))
                   (subscribe (fst (chan (updates_topic (problemId a)) w))
                      (snd (chan (updates_topic (problemId a)) w))))])
     \<and> fst (supabase_channel (updates_topic (problemId a)) w)
         = \<lparr>ident = next_ident w, topic = updates_topic (problemId a)\<rparr>
     \<and> fst (supabase_channel (updates_topic (problemId a))
           (subscribe (fst (supabase_channel (updates_topic (problemId a)) w))
              (snd (supabase_channel (updates_topic (problemId a)) w))))
         = \<lparr>ident = Suc (next_ident w), topic = updates_topic (problemId a)\<rparr>
     \<and> (\<forall>rest. \<exists>cA cB S.
           fst (interleave supabase_channel e [a, b] ([0, 1] @ rest) w) = [Some cA, Some cB]
           \<and> args cA = a
           \<and> channel cA = \<lparr>ident = next_ident w, topic = updates_topic (problemId a)\<rparr>
           \<and> args cB = b
           \<and> channel cB = \<lparr>ident = Suc (next_ident w), topic = updates_topic (problemId a)\<rparr>
           \<and> sent (effects (snd (interleave supabase_channel e [a, b] ([0, 1] @ rest) w)))
               = sent (effects w) @ S
           \<and> set S
               = (if pc cA = AwaitSend \<or> pc cA = Returned
                  then {(\<lparr>ident = next_ident w, topic = updates_topic (problemId a)\<rparr>,
                         field_update_message e a)}
                  else {})
                 \<union> (if pc cB = AwaitSend \<or> pc cB = Returned
                    then {(\<lparr>ident = Suc (next_ident w), topic = updates_topic (problemId a)\<rparr>,
                           field_update_message e b)}
                    else {})
           \<and> length S
               = (if pc cA = AwaitSend \<or> pc cA = Returned then 1 else 0)
                 + (if pc cB = AwaitSend \<or> pc cB = Returned then 1 else 0)
           \<and> (pc cA = AwaitSubscribe \<and> pc cB = AwaitSubscribe \<longrightarrow>
                 broadcastChannels (snd (interleave supabase_channel e [a, b] ([0, 1] @ rest) w))
                   (problemId a) = None)
           \<and> (pc cA \<noteq> AwaitSubscribe \<or> pc cB \<noteq> AwaitSubscribe \<longrightarrow>
                 broadcastChannels (snd (interleave supabase_channel e [a, b] ([0, 1] @ rest) w))
                     (problemId a)
                   = Some \<lparr>ident = next_ident w, topic = updates_topic (problemId a)\<rparr>
                   \<and> pc cA \<noteq> AwaitSubscribe
                 \<or> broadcastChannels (snd (interleave supabase_channel e [a, b] ([0, 1] @ rest) w))
                     (problemId a)
                   = Some \<lparr>ident = Suc (next_ident w), topic = updates_topic (problemId a)\<rparr>
                   \<and> pc cB \<noteq> AwaitSubscribe))
     \<and> map (map_option pc)
           (fst (interleave supabase_channel e [a, b] [0, 1, 0, 1, 0, 1, 0, 1] w))
         = [Some Returned, Some Returned]
     \<and> sent (effects (snd (interleave supabase_channel e [a, b] [0, 1, 0, 1, 0, 1, 0, 1] w)))
         = sent (effects w)
           @ [(\<lparr>ident = next_ident w, topic = updates_topic (problemId a)\<rparr>,
               field_update_message e a),
              (\<lparr>ident = Suc (next_ident w), topic = updates_topic (problemId a)\<rparr>,
               field_update_message e b)]
     \<and> broadcastChannels (snd (interleave supabase_channel e [a, b] [0, 1, 0, 1, 0, 1, 0, 1] w))
           (problemId a)
         = Some \<lparr>ident = Suc (next_ident w), topic = updates_topic (problemId a)\<rparr>
     \<and> sent (effects (snd (interleave supabase_channel e [a, b] [0, 1, 1, 0, 1, 0, 1, 0] w)))
         = sent (effects w)
           @ [(\<lparr>ident = Suc (next_ident w), topic = updates_topic (problemId a)\<rparr>,
               field_update_message e b),
              (\<lparr>ident = next_ident w, topic = updates_topic (problemId a)\<rparr>,
               field_update_message e a)]
     \<and> broadcastChannels (snd (interleave supabase_channel e [a, b] [0, 1, 1, 0, 1, 0, 1, 0] w))
           (problemId a)
         = Some \<lparr>ident = next_ident w, topic = updates_topic (problemId a)\<rparr>
     \<and> (\<forall>v ch. broadcastChannels v (problemId b) = Some ch
            \<and> state_of v ch \<noteq> ''closed'' \<and> state_of v ch \<noteq> ''errored'' \<longrightarrow>
            channel (fst (begin_broadcast_with chan e b v)) = ch
            \<and> created (effects (snd (begin_broadcast_with chan e b v))) = created (effects v))
     \<and> created (effects (broadcastFieldUpdate e b (broadcastFieldUpdate e a w)))
         = created (effects w) @ [\<lparr>ident = next_ident w, topic = updates_topic (problemId a)\<rparr>]
     \<and> sent (effects (broadcastFieldUpdate e b (broadcastFieldUpdate e a w)))
         = sent (effects w)
           @ [(\<lparr>ident = next_ident w, topic = updates_topic (problemId a)\<rparr>,
               field_update_message e a),
              (\<lparr>ident = next_ident w, topic = updates_topic (problemId a)\<rparr>,
               field_update_message e b)]"
proof -
  let ?t = "updates_topic (problemId a)"
  let ?chA = "\<lparr>ident = next_ident w, topic = ?t\<rparr>"
  let ?chB = "\<lparr>ident = Suc (next_ident w), topic = ?t\<rparr>"
  note begun = both_begin_effects [OF assms, of e]
  have asked: "effects (snd (interleave chan e [a, b] [0, 1] w))
           = effects w
             @ [Create (fst (chan ?t w)), Subscribe (fst (chan ?t w)),
                Create (fst (chan ?t (subscribe (fst (chan ?t w)) (snd (chan ?t w))))),
                Subscribe (fst (chan ?t (subscribe (fst (chan ?t w)) (snd (chan ?t w)))))]"
    using begun(1) by (simp add: first_handed_def second_handed_def)
  have uncached: "broadcastChannels (snd (interleave chan e [a, b] [0, 1] w)) (problemId a) = None"
    using begun(2) assms(2) by simp
  have twice: "created (effects (snd (interleave chan e [a, b] ([0, 1] @ rest) w)))
           = created (effects w)
             @ [fst (chan ?t w), fst (chan ?t (subscribe (fst (chan ?t w)) (snd (chan ?t w))))]"
    for rest
    using two_calls_always [OF assms, of e rest]
    by (auto simp: two_calls_def first_handed_def second_handed_def)
  have new: "fst (supabase_channel ?t w) = ?chA"
      "fst (supabase_channel ?t (subscribe (fst (supabase_channel ?t w))
              (snd (supabase_channel ?t w)))) = ?chB"
    using handed_supabase_channel [of ?t w] by (simp_all add: first_handed_def second_handed_def)
  have always: "\<exists>cA cB S.
           fst (interleave supabase_channel e [a, b] ([0, 1] @ rest) w) = [Some cA, Some cB]
           \<and> args cA = a \<and> channel cA = ?chA \<and> args cB = b \<and> channel cB = ?chB
           \<and> sent (effects (snd (interleave supabase_channel e [a, b] ([0, 1] @ rest) w)))
               = sent (effects w) @ S
           \<and> set S
               = (if pc cA = AwaitSend \<or> pc cA = Returned
                  then {(?chA, field_update_message e a)} else {})
                 \<union> (if pc cB = AwaitSend \<or> pc cB = Returned
                    then {(?chB, field_update_message e b)} else {})
           \<and> length S
               = (if pc cA = AwaitSend \<or> pc cA = Returned then 1 else 0)
                 + (if pc cB = AwaitSend \<or> pc cB = Returned then 1 else 0)
           \<and> (pc cA = AwaitSubscribe \<and> pc cB = AwaitSubscribe \<longrightarrow>
                 broadcastChannels (snd (interleave supabase_channel e [a, b] ([0, 1] @ rest) w))
                   (problemId a) = None)
           \<and> (pc cA \<noteq> AwaitSubscribe \<or> pc cB \<noteq> AwaitSubscribe \<longrightarrow>
                 broadcastChannels (snd (interleave supabase_channel e [a, b] ([0, 1] @ rest) w))
                     (problemId a) = Some ?chA
                   \<and> pc cA \<noteq> AwaitSubscribe
                 \<or> broadcastChannels (snd (interleave supabase_channel e [a, b] ([0, 1] @ rest) w))
                     (problemId a) = Some ?chB
                   \<and> pc cB \<noteq> AwaitSubscribe)" for rest
    using two_calls_always [OF hands_out_supabase_channel assms(2,3), of e rest]
    unfolding two_calls_def handed_supabase_channel has_sent_def has_cached_def
    by blast
  have turn: "map (map_option pc)
           (fst (interleave supabase_channel e [a, b] [0, 1, 0, 1, 0, 1, 0, 1] w))
         = [Some Returned, Some Returned]"
      "sent (effects (snd (interleave supabase_channel e [a, b] [0, 1, 0, 1, 0, 1, 0, 1] w)))
         = sent (effects w) @ [(?chA, field_update_message e a), (?chB, field_update_message e b)]"
      "broadcastChannels (snd (interleave supabase_channel e [a, b] [0, 1, 0, 1, 0, 1, 0, 1] w))
           (problemId a) = Some ?chB"
    unfolding both_finish_in_turn [OF assms(2,3)]
    by (simp_all add: sent_append sent_console_log)
  have other: "sent (effects (snd (interleave supabase_channel e [a, b] [0, 1, 1, 0, 1, 0, 1, 0] w)))
         = sent (effects w) @ [(?chB, field_update_message e b), (?chA, field_update_message e a)]"
      "broadcastChannels (snd (interleave supabase_channel e [a, b] [0, 1, 1, 0, 1, 0, 1, 0] w))
           (problemId a) = Some ?chA"
    unfolding both_finish_second_first [OF assms(2,3)]
    by (simp_all add: sent_append sent_console_log)
  have reuse: "\<forall>v ch. broadcastChannels v (problemId b) = Some ch
            \<and> state_of v ch \<noteq> ''closed'' \<and> state_of v ch \<noteq> ''errored'' \<longrightarrow>
            channel (fst (begin_broadcast_with chan e b v)) = ch
            \<and> created (effects (snd (begin_broadcast_with chan e b v))) = created (effects v)"
    using begin_broadcast_with_live by blast
  have after: "created (effects (broadcastFieldUpdate e b (broadcastFieldUpdate e a w)))
                 = created (effects w) @ [?chA]"
      "sent (effects (broadcastFieldUpdate e b (broadcastFieldUpdate e a w)))
                 = sent (effects w) @ [(?chA, field_update_message e a), (?chA, field_update_message e b)]"
    unfolding broadcast_twice [OF assms(2,3)]
    by (simp_all add: created_append sent_append created_console_log sent_console_log
          new_channel_def)
  from asked uncached twice new always turn other reuse after show ?thesis
    by blast
qed

text \<open>
  In the initial world the two edits of problem 7 create the channels 0 and 1 whatever
  follows; resumed in turn they leave channel 1 cached, and one after the other they create
  channel 0 only.
\<close>

theorem overlapping_broadcasts_not_serialised_witness:
  "hands_out supabase_channel
   \<and> broadcastChannels initial_world (problemId statement_edit) = None
   \<and> problemId answer_edit = problemId statement_edit
   \<and> created (effects (snd
        (interleave supabase_channel calm [statement_edit, answer_edit]
           ([0, 1] @ [1, 1, 0]) initial_world)))
       = [\<lparr>ident = 0, topic = ''problem:7:updates''\<rparr>, \<lparr>ident = 1, topic = ''problem:7:updates''\<rparr>]
   \<and> broadcastChannels (snd
        (interleave supabase_channel calm [statement_edit, answer_edit]
           [0, 1, 0, 1, 0, 1, 0, 1] initial_world)) 7
       = Some \<lparr>ident = 1, topic = ''problem:7:updates''\<rparr>
   \<and> created (effects (broadcastFieldUpdate calm answer_edit
        (broadcastFieldUpdate calm statement_edit initial_world)))
       = [\<lparr>ident = 0, topic = ''problem:7:updates''\<rparr>]"
proof -
  have none: "broadcastChannels initial_world (problemId statement_edit) = None"
    by (simp add: initial_world_def)
  have same: "problemId answer_edit = problemId statement_edit"
    by (simp add: answer_edit_def statement_edit_def)
  have topic7: "updates_topic 7 = ''problem:7:updates''"
    by code_simp
  have pid: "problemId statement_edit = 7"
    by (simp add: statement_edit_def)
  have start: "created (effects initial_world) = []" "next_ident initial_world = 0"
    by (simp_all add: initial_world_def)
  note inst = overlapping_broadcasts_not_serialised
    [OF hands_out_supabase_channel none same, of calm]
  from inst have "created (effects (snd (interleave supabase_channel calm
          [statement_edit, answer_edit] ([0, 1] @ [1, 1, 0]) initial_world)))
       = created (effects initial_world)
         @ [fst (supabase_channel (updates_topic (problemId statement_edit)) initial_world),
            fst (supabase_channel (updates_topic (problemId statement_edit))
               (subscribe
                  (fst (supabase_channel (updates_topic (problemId statement_edit)) initial_world))
                  (snd (supabase_channel (updates_topic (problemId statement_edit)) initial_world))))]"
    by blast
  moreover from inst
  have "fst (supabase_channel (updates_topic (problemId statement_edit)) initial_world)
          = \<lparr>ident = next_ident initial_world, topic = updates_topic (problemId statement_edit)\<rparr>"
    and "fst (supabase_channel (updates_topic (problemId statement_edit))
               (subscribe
                  (fst (supabase_channel (updates_topic (problemId statement_edit)) initial_world))
                  (snd (supabase_channel (updates_topic (problemId statement_edit)) initial_world))))
          = \<lparr>ident = Suc (next_ident initial_world),
             topic = updates_topic (problemId statement_edit)\<rparr>"
    and "broadcastChannels (snd (interleave supabase_channel calm [statement_edit, answer_edit]
           [0, 1, 0, 1, 0, 1, 0, 1] initial_world)) (problemId statement_edit)
          = Some \<lparr>ident = Suc (next_ident initial_world),
                  topic = updates_topic (problemId statement_edit)\<rparr>"
    and "created (effects (broadcastFieldUpdate calm answer_edit
          (broadcastFieldUpdate calm statement_edit initial_world)))
          = created (effects initial_world)
            @ [\<lparr>ident = next_ident initial_world,
                topic = updates_topic (problemId statement_edit)\<rparr>]"
    by blast+
  ultimately show ?thesis
    using hands_out_supabase_channel none same
    by (simp add: pid topic7 start)
qed

end
